theory Spec2Isabelle
  imports Main "HOL-Library.Sublist"
begin

section \<open>Characters and strings of the Python runtime\<close>

text \<open>
  A Python \<open>str\<close> is modelled as a HOL \<open>string\<close>; a character stands for the code
  point of the same number, so the model covers the code points 0 to 255. The character
  classes below are the ones the interpreter uses on that range: \<open>str.isspace\<close> (also
  the class \<open>\s\<close> of \<open>re\<close>), the class \<open>\d\<close>, the class \<open>\w\<close>, and the case
  mappings of \<open>str.lower\<close> and \<open>str.upper\<close>.
\<close>

definition isspace :: "char \<Rightarrow> bool" where
  "isspace c =
     (let n = (of_char c :: nat)
      in (9 \<le> n \<and> n \<le> 13) \<or> (28 \<le> n \<and> n \<le> 32) \<or> n = 133 \<or> n = 160)"

definition isdigit :: "char \<Rightarrow> bool" where
  "isdigit c = (let n = (of_char c :: nat) in 48 \<le> n \<and> n \<le> 57)"

definition isword :: "char \<Rightarrow> bool" where
  "isword c =
     (let n = (of_char c :: nat)
      in (48 \<le> n \<and> n \<le> 57) \<or> (65 \<le> n \<and> n \<le> 90) \<or> n = 95 \<or> (97 \<le> n \<and> n \<le> 122)
         \<or> n = 170 \<or> n = 178 \<or> n = 179 \<or> n = 181 \<or> n = 185 \<or> n = 186
         \<or> (188 \<le> n \<and> n \<le> 190) \<or> (192 \<le> n \<and> n \<le> 214) \<or> (216 \<le> n \<and> n \<le> 246)
         \<or> 248 \<le> n)"

definition digit_val :: "char \<Rightarrow> nat" where
  "digit_val c = of_char c - 48"

definition digit_char :: "nat \<Rightarrow> char" where
  "digit_char n = char_of (48 + n)"

definition lower_char :: "char \<Rightarrow> char" where
  "lower_char c =
     (let n = (of_char c :: nat)
      in if (65 \<le> n \<and> n \<le> 90) \<or> (192 \<le> n \<and> n \<le> 222 \<and> n \<noteq> 215)
         then char_of (n + 32) else c)"

text \<open>
  Three characters of the range (U+00B5, U+00DF, U+00FF) have an upper case outside it;
  \<open>upper_char\<close> leaves them as they are. The only use of the upper case is
  \<open>str.capitalize\<close> on a month token that is then matched ignoring case against the
  English month names, none of which starts with these characters or with what Python
  maps them to.
\<close>

definition upper_char :: "char \<Rightarrow> char" where
  "upper_char c =
     (let n = (of_char c :: nat)
      in if (97 \<le> n \<and> n \<le> 122) \<or> (224 \<le> n \<and> n \<le> 254 \<and> n \<noteq> 247)
         then char_of (n - 32) else c)"

definition str_lower :: "string \<Rightarrow> string" where
  "str_lower s = map lower_char s"

definition str_capitalize :: "string \<Rightarrow> string" where
  "str_capitalize s = (case s of [] \<Rightarrow> [] | c # cs \<Rightarrow> upper_char c # map lower_char cs)"

definition str_strip :: "string \<Rightarrow> string" where
  "str_strip s = rev (dropWhile isspace (rev (dropWhile isspace s)))"

text \<open>\<open>str.split()\<close> with no argument: the maximal runs of non-whitespace characters.\<close>

function str_split :: "string \<Rightarrow> string list" where
  "str_split s =
     (let t = dropWhile isspace s
      in if t = [] then []
         else takeWhile (\<lambda>c. \<not> isspace c) t # str_split (dropWhile (\<lambda>c. \<not> isspace c) t))"
  by pat_completeness auto
termination
proof (relation "measure length")
  show "wf (measure length)" by simp
next
  fix s t :: string
  assume t: "t = dropWhile isspace s" and ne: "t \<noteq> []"
  from ne obtain c cs where tc: "t = c # cs" by (cases t) auto
  have "\<not> isspace (hd t)" using hd_dropWhile [of isspace s] t ne by simp
  then have "\<not> isspace c" using tc by simp
  then have "length (dropWhile (\<lambda>c. \<not> isspace c) t) \<le> length cs"
    using tc length_dropWhile_le [of "\<lambda>c. \<not> isspace c" cs] by simp
  moreover have "length t \<le> length s" using t length_dropWhile_le by blast
  ultimately show "(dropWhile (\<lambda>c. \<not> isspace c) t, s) \<in> measure length"
    using tc by simp
qed

declare str_split.simps [simp del]

text \<open>The operator \<open>sub in s\<close> on strings.\<close>

fun str_contains :: "string \<Rightarrow> string \<Rightarrow> bool" where
  "str_contains sub [] = (sub = [])"
| "str_contains sub (c # cs) = (prefix sub (c # cs) \<or> str_contains sub cs)"

text \<open>
  \<open>s.replace(old, new)\<close>: every occurrence of \<open>old\<close>, left to right, without overlap;
  with an empty \<open>old\<close>, \<open>new\<close> goes before every character and at the end.
\<close>

function str_replace :: "string \<Rightarrow> string \<Rightarrow> string \<Rightarrow> string" where
  "str_replace old new s =
     (if old = [] then new @ concat (map (\<lambda>c. c # new) s)
      else if prefix old s then new @ str_replace old new (drop (length old) s)
      else (case s of [] \<Rightarrow> [] | c # cs \<Rightarrow> c # str_replace old new cs))"
  by pat_completeness auto
termination
  by (relation "measure (\<lambda>(old, new, s). length s)") (auto simp: prefix_def)

declare str_replace.simps [simp del]

text \<open>\<open>sep.join(lines)\<close>.\<close>

fun str_join :: "string \<Rightarrow> string list \<Rightarrow> string" where
  "str_join sep [] = []"
| "str_join sep [x] = x"
| "str_join sep (x # y # ys) = x @ sep @ str_join sep (y # ys)"

text \<open>\<open>str(n)\<close> of an integer, as an f-string writes it.\<close>

fun str_nat :: "nat \<Rightarrow> string" where
  "str_nat n = (if n < 10 then [digit_char n] else str_nat (n div 10) @ [digit_char (n mod 10)])"

declare str_nat.simps [simp del]

definition str_int :: "int \<Rightarrow> string" where
  "str_int i = (if i < 0 then CHR ''-'' # str_nat (nat (- i)) else str_nat (nat i))"

section \<open>The date parser of the standard library\<close>

text \<open>
  \<open>datetime.strptime(s, "%d %B %Y")\<close> compiles the format into the regular expression
  \<^verbatim>\<open>(?P<d>3[0-1]|[1-2]\d|0[1-9]|[1-9]| [1-9])\s+(?P<B>september|february|...|may)\s+(?P<Y>\d\d\d\d)\<close>
  matched at the start of the string ignoring case; the match has to end at the end of
  the string, and the three groups have to form a date of the proleptic Gregorian
  calendar with a year from 1 to 9999. Every failure is a \<open>ValueError\<close>, here \<open>None\<close>.

  The expression is matched with backtracking, but no choice point has a second way to
  succeed: a day alternative that matches is followed by a character that rules out the
  later alternatives, a run of whitespace has to be taken whole because a month starts
  with a letter and a year with a digit, and no month name is a prefix of another. So
  each part is a function of the remaining input.
\<close>

definition nonzero_digit :: "char \<Rightarrow> bool" where
  "nonzero_digit c = (let n = (of_char c :: nat) in 49 \<le> n \<and> n \<le> 57)"

fun match_day :: "string \<Rightarrow> (nat \<times> string) option" where
  "match_day (a # b # r) =
     (if a = CHR ''3'' \<and> (b = CHR ''0'' \<or> b = CHR ''1'') then Some (30 + digit_val b, r)
      else if (a = CHR ''1'' \<or> a = CHR ''2'') \<and> isdigit b then Some (10 * digit_val a + digit_val b, r)
      else if a = CHR ''0'' \<and> nonzero_digit b then Some (digit_val b, r)
      else if nonzero_digit a then Some (digit_val a, b # r)
      else if a = CHR '' '' \<and> nonzero_digit b then Some (digit_val b, r)
      else None)"
| "match_day [a] = (if nonzero_digit a then Some (digit_val a, []) else None)"
| "match_day [] = None"

definition match_ws :: "string \<Rightarrow> string option" where
  "match_ws s = (if takeWhile isspace s = [] then None else Some (dropWhile isspace s))"

definition month_names :: "string list" where
  "month_names = [''january'', ''february'', ''march'', ''april'', ''may'', ''june'', ''july'',
     ''august'', ''september'', ''october'', ''november'', ''december'']"

definition month_alternatives :: "string list" where
  "month_alternatives = [''september'', ''february'', ''november'', ''december'', ''january'',
     ''october'', ''august'', ''march'', ''april'', ''june'', ''july'', ''may'']"

fun index_of :: "'a \<Rightarrow> 'a list \<Rightarrow> nat" where
  "index_of x [] = 0"
| "index_of x (y # ys) = (if x = y then 0 else Suc (index_of x ys))"

definition ci_prefix :: "string \<Rightarrow> string \<Rightarrow> bool" where
  "ci_prefix name s = (length name \<le> length s \<and> map lower_char (take (length name) s) = name)"

definition match_month :: "string \<Rightarrow> (nat \<times> string) option" where
  "match_month s =
     (case find (\<lambda>name. ci_prefix name s) month_alternatives of
        None \<Rightarrow> None
      | Some name \<Rightarrow> Some (Suc (index_of name month_names), drop (length name) s))"

fun match_year :: "string \<Rightarrow> (nat \<times> string) option" where
  "match_year (a # b # c # d # r) =
     (if isdigit a \<and> isdigit b \<and> isdigit c \<and> isdigit d
      then Some (1000 * digit_val a + 100 * digit_val b + 10 * digit_val c + digit_val d, r)
      else None)"
| "match_year _ = None"

definition is_leap :: "nat \<Rightarrow> bool" where
  "is_leap y = (y mod 4 = 0 \<and> (y mod 100 \<noteq> 0 \<or> y mod 400 = 0))"

definition days_in_month :: "nat \<Rightarrow> nat \<Rightarrow> nat" where
  "days_in_month y m =
     (if m = 2 then (if is_leap y then 29 else 28)
      else if m = 4 \<or> m = 6 \<or> m = 9 \<or> m = 11 then 30 else 31)"

definition valid_date :: "nat \<Rightarrow> nat \<Rightarrow> nat \<Rightarrow> bool" where
  "valid_date y m d = (1 \<le> y \<and> y \<le> 9999 \<and> 1 \<le> m \<and> m \<le> 12 \<and> 1 \<le> d \<and> d \<le> days_in_month y m)"

definition strptime :: "string \<Rightarrow> (nat \<times> nat \<times> nat) option" where
  "strptime s =
     (case match_day s of None \<Rightarrow> None | Some (d, r1) \<Rightarrow>
     (case match_ws r1 of None \<Rightarrow> None | Some r2 \<Rightarrow>
     (case match_month r2 of None \<Rightarrow> None | Some (m, r3) \<Rightarrow>
     (case match_ws r3 of None \<Rightarrow> None | Some r4 \<Rightarrow>
     (case match_year r4 of None \<Rightarrow> None | Some (y, r5) \<Rightarrow>
        if r5 \<noteq> [] then None
        else if valid_date y m d then Some (y, m, d) else None)))))"

text \<open>
  \<open>strftime("%Y-%m-%d")\<close> as the library documents it: the year on four digits, the
  month and the day on two, zero-filled.
\<close>

definition pad2 :: "nat \<Rightarrow> string" where
  "pad2 n = [digit_char (n div 10 mod 10), digit_char (n mod 10)]"

definition pad4 :: "nat \<Rightarrow> string" where
  "pad4 n = [digit_char (n div 1000 mod 10), digit_char (n div 100 mod 10),
             digit_char (n div 10 mod 10), digit_char (n mod 10)]"

definition strftime :: "nat \<times> nat \<times> nat \<Rightarrow> string" where
  "strftime dt = (case dt of (y, m, d) \<Rightarrow> pad4 y @ ''-'' @ pad2 m @ ''-'' @ pad2 d)"

section \<open>The two date normalizers\<close>

definition INDONESIAN_MONTHS :: "(string \<times> string) list" where
  "INDONESIAN_MONTHS =
     [(''januari'', ''January''), (''februari'', ''February''), (''maret'', ''March''),
      (''april'', ''April''), (''mei'', ''May''), (''juni'', ''June''), (''juli'', ''July''),
      (''agustus'', ''August''), (''september'', ''September''), (''oktober'', ''October''),
      (''november'', ''November''), (''desember'', ''December'')]"

text \<open>
  A value of a pandas cell: a text, or \<open>NaN\<close> for an empty cell. A numeric cell behaves
  in every function below as the text \<open>str\<close> gives for it.
\<close>

datatype cell = Str string | NaN

fun str_of_cell :: "cell \<Rightarrow> string" where
  "str_of_cell (Str s) = s"
| "str_of_cell NaN = ''nan''"

text \<open>\<open>parse_indonesian_date\<close> of \<open>insert_participants.py\<close>.\<close>

fun participants_parse_indonesian_date :: "cell \<Rightarrow> string option" where
  "participants_parse_indonesian_date NaN = None"
| "participants_parse_indonesian_date (Str s) =
     (if s = [] then None
      else
        (let date_str = str_lower (str_strip s);
             parts = str_split date_str
         in if length parts \<noteq> 3 then map_option strftime (strptime date_str)
            else
              (let day = parts ! 0; month_ind = parts ! 1; year = parts ! 2
               in case map_of INDONESIAN_MONTHS month_ind of
                    None \<Rightarrow>
                      map_option strftime
                        (strptime (day @ '' '' @ str_capitalize month_ind @ '' '' @ year))
                  | Some month_eng \<Rightarrow>
                      map_option strftime (strptime (day @ '' '' @ month_eng @ '' '' @ year)))))"

declare participants_parse_indonesian_date.simps [simp del]

text \<open>
  \<open>parse_indonesian_date\<close> of \<open>insert_schedules.py\<close>: the first Indonesian month name
  (in the order of the table) that occurs in the lower-cased text is replaced everywhere
  by its English name; the result is parsed, and when that fails the original text is.
\<close>

fun replace_month :: "(string \<times> string) list \<Rightarrow> string \<Rightarrow> string" where
  "replace_month [] s = s"
| "replace_month ((ind_month, eng_month) # rest) s =
     (if str_contains ind_month s then str_replace ind_month eng_month s
      else replace_month rest s)"

definition schedules_parse_indonesian_date :: "string \<Rightarrow> string option" where
  "schedules_parse_indonesian_date date_str =
     (if date_str = [] then None
      else
        (let date_str_lower = replace_month INDONESIAN_MONTHS (str_lower date_str)
         in case strptime date_str_lower of
              Some date_obj \<Rightarrow> Some (strftime date_obj)
            | None \<Rightarrow>
                (case strptime date_str of
                   Some date_obj \<Rightarrow> Some (strftime date_obj)
                 | None \<Rightarrow> None)))"

section \<open>Programs: classification and reconciliation (\<open>insert_programs.py\<close>)\<close>

definition CATEGORY_IDS :: "(string \<times> int) list" where
  "CATEGORY_IDS =
     [(''Engineering'', 1), (''Accounting'', 2), (''Construction'', 3), (''Management'', 4),
      (''IT'', 5), (''Communication'', 6), (''Academic'', 7), (''HR'', 8), (''Leadership'', 9),
      (''Forum'', 10), (''Certification'', 11), (''TestPrep'', 12), (''Webinar'', 13),
      (''GenZ'', 14)]"

text \<open>
  \<open>re.search(rf"\b{re.escape(keyword)}\b", name)\<close>: the keyword is matched literally
  (and case-sensitively: the call passes no flag), at any position, between two word
  boundaries. \<open>\b\<close> holds between two positions when exactly one of the characters
  around it is a word character; the outside of the string counts as a non-word
  character.
\<close>

definition is_w :: "char option \<Rightarrow> bool" where
  "is_w oc = (case oc of None \<Rightarrow> False | Some c \<Rightarrow> isword c)"

definition word_boundary :: "char option \<Rightarrow> char option \<Rightarrow> bool" where
  "word_boundary before after = (is_w before \<noteq> is_w after)"

definition first_char :: "string \<Rightarrow> char option" where
  "first_char s = (case s of [] \<Rightarrow> None | c # _ \<Rightarrow> Some c)"

definition last_char :: "string \<Rightarrow> char option" where
  "last_char s = (if s = [] then None else Some (last s))"

definition match_at :: "string \<Rightarrow> char option \<Rightarrow> string \<Rightarrow> bool" where
  "match_at keyword before s =
     (word_boundary before (first_char s) \<and> prefix keyword s \<and>
      word_boundary (if keyword = [] then before else last_char keyword)
        (first_char (drop (length keyword) s)))"

fun search_from :: "string \<Rightarrow> char option \<Rightarrow> string \<Rightarrow> bool" where
  "search_from keyword before [] = match_at keyword before []"
| "search_from keyword before (c # cs) =
     (match_at keyword before (c # cs) \<or> search_from keyword (Some c) cs)"

definition re_search_word :: "string \<Rightarrow> string \<Rightarrow> bool" where
  "re_search_word keyword name = search_from keyword None name"

text \<open>
  \<open>rules\<close> is a dictionary; its items come in insertion order, so it is a list of
  pairs. The category id is read from the module-level table \<open>CATEGORY_IDS\<close>.
\<close>

fun predict_category :: "string \<Rightarrow> (string \<times> string list) list \<Rightarrow> string \<times> int option" where
  "predict_category program_name_normalized [] = (''Uncategorized'', None)"
| "predict_category program_name_normalized ((category, keywords) # rules) =
     (if list_ex (\<lambda>keyword. re_search_word keyword program_name_normalized) keywords
      then (category, map_of CATEGORY_IDS category)
      else predict_category program_name_normalized rules)"

record ProgramReportItem =
  program_name :: string
  status :: string
  predicted_category :: string
  predicted_category_id :: "int option"
  action :: string
  slug :: string

text \<open>
  One pass of the loop of \<open>process_programs\<close>. \<open>slugify\<close> is the function of the
  library of that name, taken as a parameter.
\<close>

definition process_program ::
  "(string \<Rightarrow> string) \<Rightarrow> string set \<Rightarrow> (string \<times> string list) list \<Rightarrow> string \<Rightarrow> ProgramReportItem" where
  "process_program slugify existing_programs rules name =
     (let normalized_name = str_lower (str_strip name)
      in if normalized_name \<notin> existing_programs
         then
           (let (predicted_category_name, predicted_category_id_val) =
                  predict_category normalized_name rules;
                final_pred_cat_id =
                  (if predicted_category_name = ''Uncategorized'' then None
                   else predicted_category_id_val)
            in \<lparr>program_name = name, status = ''New'',
                predicted_category = predicted_category_name,
                predicted_category_id = final_pred_cat_id,
                action = ''Insert'', slug = slugify (str_strip name)\<rparr>)
         else \<lparr>program_name = name, status = ''Exists'', predicted_category = ''N/A'',
               predicted_category_id = None, action = ''Skip'',
               slug = slugify (str_strip name)\<rparr>)"

fun process_programs_loop ::
  "(string \<Rightarrow> string) \<Rightarrow> string set \<Rightarrow> (string \<times> string list) list \<Rightarrow>
   ProgramReportItem list \<Rightarrow> string list \<Rightarrow> ProgramReportItem list" where
  "process_programs_loop slugify existing_programs rules report_data [] = report_data"
| "process_programs_loop slugify existing_programs rules report_data (name # new_programs) =
     process_programs_loop slugify existing_programs rules
       (report_data @ [process_program slugify existing_programs rules name]) new_programs"

definition process_programs ::
  "(string \<Rightarrow> string) \<Rightarrow> string list \<Rightarrow> string set \<Rightarrow> (string \<times> string list) list \<Rightarrow>
   (string \<times> int) list \<Rightarrow> ProgramReportItem list" where
  "process_programs slugify new_programs existing_programs rules category_ids =
     process_programs_loop slugify existing_programs rules [] new_programs"

definition newline :: string where
  "newline = [CHR 0x0A]"

definition quote :: string where
  "quote = [CHR 0x27]"

definition sql_escape :: "string \<Rightarrow> string" where
  "sql_escape s = str_replace quote (quote @ quote) s"

text \<open>
  The header of the two script builders; \<open>now\<close> is the text of the current time as
  \<open>strftime('%Y-%m-%d %H:%M:%S')\<close> gives it.
\<close>

definition script_header :: "string \<Rightarrow> string \<Rightarrow> string list" where
  "script_header output_path_hint now =
     [''-- Generated by certificates-data-entry-tools'',
      ''-- Date: '' @ now,
      ''-- Output target: '' @ output_path_hint,
      ''START TRANSACTION;'',
      []]"

definition str_opt_int :: "int option \<Rightarrow> string" where
  "str_opt_int v = (case v of None \<Rightarrow> ''None'' | Some i \<Rightarrow> str_int i)"

definition program_sql_unit :: "ProgramReportItem \<Rightarrow> string list" where
  "program_sql_unit p =
     [''-- New Program: '' @ program_name p @ '' ('' @ predicted_category p @ '')'',
      ''INSERT INTO programs (id_category, created_at, updated_at) VALUES (''
        @ str_opt_int (predicted_category_id p) @ '', NOW(), NOW());'',
      ''SET @last_prog_id = LAST_INSERT_ID();'',
      ''INSERT INTO program_translations (id_program, language_code, name, slug, description, created_at, updated_at) ''
        @ ''VALUES (@last_prog_id, '' @ quote @ ''id'' @ quote @ '', '' @ quote
        @ sql_escape (program_name p) @ quote @ '', '' @ quote @ slug p @ quote @ '', ''
        @ quote @ ''-'' @ quote @ '', NOW(), NOW());'',
      []]"

fun programs_sql_loop :: "string list \<Rightarrow> ProgramReportItem list \<Rightarrow> string list" where
  "programs_sql_loop sql_lines [] = sql_lines"
| "programs_sql_loop sql_lines (p # programs_to_insert) =
     (if action p \<noteq> ''Insert'' \<or> predicted_category_id p = None
      then programs_sql_loop sql_lines programs_to_insert
      else programs_sql_loop (sql_lines @ program_sql_unit p) programs_to_insert)"

definition programs_sql_lines :: "ProgramReportItem list \<Rightarrow> string \<Rightarrow> string \<Rightarrow> string list" where
  "programs_sql_lines programs_to_insert output_path_hint now =
     programs_sql_loop (script_header output_path_hint now) programs_to_insert @ [''COMMIT;'']"

definition programs_generate_sql_script :: "ProgramReportItem list \<Rightarrow> string \<Rightarrow> string \<Rightarrow> string" where
  "programs_generate_sql_script programs_to_insert output_path_hint now =
     str_join newline (programs_sql_lines programs_to_insert output_path_hint now)"

section \<open>Schedules (\<open>insert_schedules.py\<close>)\<close>

text \<open>
  A row of \<open>csv.DictReader\<close> maps every column of the header to the text of its field,
  or to Python's \<open>None\<close> when the line is shorter than the header. \<open>row.get(key, "")\<close>
  gives the default only for a column the header does not have, and \<open>.strip()\<close> on
  \<open>None\<close> raises \<open>AttributeError\<close>.
\<close>

type_synonym csv_row = "string \<Rightarrow> string option option"

datatype py_error = AttributeError

definition row_get :: "csv_row \<Rightarrow> string \<Rightarrow> string \<Rightarrow> string option" where
  "row_get row key dflt = (case row key of None \<Rightarrow> Some dflt | Some v \<Rightarrow> v)"

definition get_strip :: "csv_row \<Rightarrow> string \<Rightarrow> py_error + string" where
  "get_strip row key =
     (case row_get row key [] of None \<Rightarrow> Inl AttributeError | Some v \<Rightarrow> Inr (str_strip v))"

record schedule_row =
  program :: string
  start_date :: string
  end_date :: string

fun process_csv_loop :: "schedule_row list \<Rightarrow> csv_row list \<Rightarrow> py_error + schedule_row list" where
  "process_csv_loop data [] = Inr data"
| "process_csv_loop data (row # rows) =
     (case get_strip row ''Program'' of Inl e \<Rightarrow> Inl e | Inr program_name_v \<Rightarrow>
     (case get_strip row ''Tanggal Mulai'' of Inl e \<Rightarrow> Inl e | Inr start_date_v \<Rightarrow>
     (case get_strip row ''Tanggal Sertifikat'' of Inl e \<Rightarrow> Inl e | Inr end_date_v \<Rightarrow>
        if program_name_v \<noteq> [] \<and> start_date_v \<noteq> [] \<and> end_date_v \<noteq> []
        then process_csv_loop
               (data @ [\<lparr>program = program_name_v, start_date = start_date_v, end_date = end_date_v\<rparr>])
               rows
        else process_csv_loop data rows)))"

text \<open>\<open>process_csv_data\<close>, on the rows the reader yields for the file.\<close>

definition process_csv_data :: "csv_row list \<Rightarrow> py_error + schedule_row list" where
  "process_csv_data rows = process_csv_loop [] rows"

text \<open>
  \<open>group_csv_data\<close>: the dictionary keeps its keys in the order of their first
  insertion, so it is a list of pairs with distinct keys.
\<close>

fun group_loop ::
  "((string \<times> string) \<times> schedule_row) list \<Rightarrow> schedule_row list \<Rightarrow>
   ((string \<times> string) \<times> schedule_row) list" where
  "group_loop grouped_data [] = grouped_data"
| "group_loop grouped_data (item # data) =
     (let key = (program item, start_date item)
      in if map_of grouped_data key = None
         then group_loop (grouped_data @ [(key, item)]) data
         else group_loop grouped_data data)"

definition group_csv_data :: "schedule_row list \<Rightarrow> ((string \<times> string) \<times> schedule_row) list" where
  "group_csv_data data = group_loop [] data"

definition normalize_program_name :: "string \<Rightarrow> string" where
  "normalize_program_name name = (if name = [] then [] else name)"

record program_info =
  prog_id :: int
  cat_id :: int

record ScheduleReportItem =
  program_name :: string
  start_date :: string
  end_date :: string
  program_id :: "int option"
  category_id :: "int option"
  status :: string
  action :: string

text \<open>Python's truth value of an optional text, and \<open>x or dflt\<close>.\<close>

definition truthy :: "string option \<Rightarrow> bool" where
  "truthy x = (case x of None \<Rightarrow> False | Some s \<Rightarrow> s \<noteq> [])"

definition or_else :: "string option \<Rightarrow> string \<Rightarrow> string" where
  "or_else x dflt = (if truthy x then the x else dflt)"

definition process_schedule ::
  "(string \<rightharpoonup> program_info) \<Rightarrow> (int \<times> string) set \<Rightarrow> (string \<times> string) \<times> schedule_row \<Rightarrow>
   ScheduleReportItem" where
  "process_schedule programs_data existing_schedules entry =
     (case entry of ((name, start_date_str), item) \<Rightarrow>
       (let normalized_name = normalize_program_name name;
            program_key = str_lower normalized_name;
            start_date_v = schedules_parse_indonesian_date start_date_str;
            end_date_v = schedules_parse_indonesian_date (schedule_row.end_date item)
        in if \<not> truthy start_date_v \<or> \<not> truthy end_date_v
           then \<lparr>program_name = normalized_name, start_date = or_else start_date_v [],
                 end_date = or_else end_date_v [], program_id = None, category_id = None,
                 status = ''Invalid Date'', action = ''Skip''\<rparr>
           else
             (case programs_data program_key of
                None \<Rightarrow>
                  \<lparr>program_name = normalized_name, start_date = or_else start_date_v [],
                   end_date = or_else end_date_v [], program_id = None, category_id = None,
                   status = ''Program Not Found'', action = ''Skip''\<rparr>
              | Some program_info \<Rightarrow>
                  (if (prog_id program_info, the start_date_v) \<in> existing_schedules
                   then \<lparr>program_name = normalized_name, start_date = or_else start_date_v [],
                         end_date = or_else end_date_v [],
                         program_id = Some (prog_id program_info),
                         category_id = Some (cat_id program_info),
                         status = ''Exists'', action = ''Skip''\<rparr>
                   else \<lparr>program_name = normalized_name, start_date = or_else start_date_v [],
                         end_date = or_else end_date_v [],
                         program_id = Some (prog_id program_info),
                         category_id = Some (cat_id program_info),
                         status = ''New'', action = ''Insert''\<rparr>))))"

fun process_schedules_loop ::
  "(string \<rightharpoonup> program_info) \<Rightarrow> (int \<times> string) set \<Rightarrow> ScheduleReportItem list \<Rightarrow>
   ((string \<times> string) \<times> schedule_row) list \<Rightarrow> ScheduleReportItem list" where
  "process_schedules_loop programs_data existing_schedules report_data [] = report_data"
| "process_schedules_loop programs_data existing_schedules report_data (entry # grouped_data) =
     process_schedules_loop programs_data existing_schedules
       (report_data @ [process_schedule programs_data existing_schedules entry]) grouped_data"

definition process_schedules ::
  "((string \<times> string) \<times> schedule_row) list \<Rightarrow> (string \<rightharpoonup> program_info) \<Rightarrow>
   (int \<times> string) set \<Rightarrow> ScheduleReportItem list" where
  "process_schedules grouped_data programs_data existing_schedules =
     process_schedules_loop programs_data existing_schedules [] grouped_data"

definition schedule_sql_unit :: "ScheduleReportItem \<Rightarrow> string list" where
  "schedule_sql_unit s =
     [''-- New Schedule: '' @ ScheduleReportItem.program_name s @ '' (''
        @ ScheduleReportItem.start_date s @ '' to '' @ ScheduleReportItem.end_date s @ '')'',
      ''INSERT INTO schedules (id_program, id_category, date_start, date_end, time_start, time_end, created_at, updated_at) ''
        @ ''VALUES ('' @ str_opt_int (program_id s) @ '', '' @ str_opt_int (category_id s)
        @ '', '' @ quote @ ScheduleReportItem.start_date s @ quote @ '', '' @ quote
        @ ScheduleReportItem.end_date s @ quote @ '', NULL, NULL, NOW(), NOW());'',
      []]"

fun schedules_sql_loop :: "string list \<Rightarrow> ScheduleReportItem list \<Rightarrow> string list" where
  "schedules_sql_loop sql_lines [] = sql_lines"
| "schedules_sql_loop sql_lines (s # schedules_to_insert) =
     (if ScheduleReportItem.action s \<noteq> ''Insert''
      then schedules_sql_loop sql_lines schedules_to_insert
      else schedules_sql_loop (sql_lines @ schedule_sql_unit s) schedules_to_insert)"

definition schedules_sql_lines :: "ScheduleReportItem list \<Rightarrow> string \<Rightarrow> string \<Rightarrow> string list" where
  "schedules_sql_lines schedules_to_insert output_path_hint now =
     schedules_sql_loop (script_header output_path_hint now) schedules_to_insert @ [''COMMIT;'']"

definition schedules_generate_sql_script :: "ScheduleReportItem list \<Rightarrow> string \<Rightarrow> string \<Rightarrow> string" where
  "schedules_generate_sql_script schedules_to_insert output_path_hint now =
     str_join newline (schedules_sql_lines schedules_to_insert output_path_hint now)"

section \<open>Participants (\<open>insert_participants.py\<close>)\<close>

text \<open>
  A row of the data frame, with the six columns the loop of \<open>generate_sql\<close> reads.
\<close>

record participant_row =
  Nama :: cell
  Program :: cell
  Tanggal_Mulai :: cell
  No :: cell
  ket :: cell
  Tanggal_Sertifikat :: cell

record ParticipantReportItem =
  participant_name :: string
  program_name :: string
  schedule_start_date :: string
  certificate_ref :: string
  certificate_issue_date :: string
  status :: string
  action :: string

record gen_state =
  sql_statements :: "string list"
  report :: "ParticipantReportItem list"
  processed_count :: nat
  inserted_count :: nat
  skipped_count :: nat
  not_found_count :: nat

definition make_certificate_ref :: "string \<Rightarrow> string \<Rightarrow> string" where
  "make_certificate_ref no_value ket_value =
     (if no_value \<noteq> [] \<and> ket_value \<noteq> [] then no_value @ ket_value else ket_value)"

text \<open>
  One pass of the loop of \<open>generate_sql\<close>. A schedule id of 0 is as good as none for
  \<open>if not schedule_id\<close>.
\<close>

definition generate_sql_step ::
  "(string \<rightharpoonup> program_info) \<Rightarrow> (int \<times> string \<rightharpoonup> int) \<Rightarrow> (int \<times> string) set \<Rightarrow>
   gen_state \<Rightarrow> participant_row \<Rightarrow> gen_state" where
  "generate_sql_step programs_map schedules_map existing_participants st0 row =
     (let st = st0\<lparr>processed_count := processed_count st0 + 1\<rparr>;
          participant_name_v = str_strip (str_of_cell (Nama row));
          program_name_v = str_strip (str_of_cell (Program row));
          schedule_start_date_str = participants_parse_indonesian_date (Tanggal_Mulai row);
          no_value = str_strip (str_of_cell (No row));
          ket_value = str_strip (str_of_cell (ket row));
          certificate_ref_v = make_certificate_ref no_value ket_value;
          certificate_issue_date_str = participants_parse_indonesian_date (Tanggal_Sertifikat row);
          report_item =
            \<lparr>participant_name = participant_name_v, program_name = program_name_v,
             schedule_start_date = or_else schedule_start_date_str ''N/A'',
             certificate_ref = certificate_ref_v,
             certificate_issue_date = or_else certificate_issue_date_str ''N/A'',
             status = ''Pending'', action = ''N/A''\<rparr>
      in if \<not> truthy schedule_start_date_str
         then st\<lparr>report := report st @
                    [report_item\<lparr>status := ''Skipped'', action := ''Invalid schedule start date''\<rparr>],
                 skipped_count := skipped_count st + 1\<rparr>
         else
           (case programs_map (str_lower program_name_v) of
              None \<Rightarrow>
                st\<lparr>report := report st @
                      [report_item\<lparr>status := ''Not Found'',
                                   action := ''Program not found in master data''\<rparr>],
                   not_found_count := not_found_count st + 1\<rparr>
            | Some program_data \<Rightarrow>
                (let program_id_v = prog_id program_data;
                     category_id_v = cat_id program_data;
                     schedule_key = (program_id_v, the schedule_start_date_str);
                     schedule_id = schedules_map schedule_key
                 in if schedule_id = None \<or> schedule_id = Some 0
                    then st\<lparr>report := report st @
                               [report_item\<lparr>status := ''Not Found'',
                                  action := ''Schedule not found for this program and date''\<rparr>],
                            not_found_count := not_found_count st + 1\<rparr>
                    else if (the schedule_id, str_lower participant_name_v) \<in> existing_participants
                    then st\<lparr>report := report st @
                               [report_item\<lparr>status := ''Skipped'',
                                  action := ''Participant already exists for this schedule''\<rparr>],
                            skipped_count := skipped_count st + 1\<rparr>
                    else
                      (let issued_at_sql =
                             (if \<not> truthy certificate_issue_date_str then ''NULL''
                              else quote @ the certificate_issue_date_str @ quote)
                       in st\<lparr>sql_statements := sql_statements st @
                            [''INSERT INTO participants (id_schedule, id_program, id_category, name, created_at) ''
                               @ ''VALUES ('' @ str_int (the schedule_id) @ '', '' @ str_int program_id_v
                               @ '', '' @ str_int category_id_v @ '', '' @ quote
                               @ sql_escape participant_name_v @ quote @ '', NOW());'',
                             ''SET @last_part_id = LAST_INSERT_ID();'',
                             ''INSERT INTO certificates (id_participant, reference_number, nama_program, issued_at, created_at) ''
                               @ ''VALUES (@last_part_id, '' @ quote @ sql_escape certificate_ref_v
                               @ quote @ '', '' @ quote @ sql_escape program_name_v @ quote @ '', ''
                               @ issued_at_sql @ '', NOW());''],
                          report := report st @
                            [report_item\<lparr>status := ''To Be Inserted'',
                               action := ''Participant and Certificate records generated''\<rparr>],
                          inserted_count := inserted_count st + 1\<rparr>))))"

fun generate_sql_loop ::
  "(string \<rightharpoonup> program_info) \<Rightarrow> (int \<times> string \<rightharpoonup> int) \<Rightarrow> (int \<times> string) set \<Rightarrow>
   gen_state \<Rightarrow> participant_row list \<Rightarrow> gen_state" where
  "generate_sql_loop programs_map schedules_map existing_participants st [] = st"
| "generate_sql_loop programs_map schedules_map existing_participants st (row # df) =
     generate_sql_loop programs_map schedules_map existing_participants
       (generate_sql_step programs_map schedules_map existing_participants st row) df"

definition summary_item :: "gen_state \<Rightarrow> ParticipantReportItem" where
  "summary_item st =
     \<lparr>participant_name = ''--- SUMMARY ---'',
      program_name = ''Processed: '' @ str_nat (processed_count st),
      schedule_start_date = ''Inserted: '' @ str_nat (inserted_count st),
      certificate_ref = ''Skipped: '' @ str_nat (skipped_count st),
      certificate_issue_date = ''Not Found: '' @ str_nat (not_found_count st),
      status = ''Complete'', action = ''SQL Generation Finished''\<rparr>"

definition generate_sql ::
  "participant_row list \<Rightarrow> (string \<rightharpoonup> program_info) \<Rightarrow> (int \<times> string \<rightharpoonup> int) \<Rightarrow>
   (int \<times> string) set \<Rightarrow> string \<times> ParticipantReportItem list" where
  "generate_sql df programs_map schedules_map existing_participants =
     (let st = generate_sql_loop programs_map schedules_map existing_participants
                 \<lparr>sql_statements = [''START TRANSACTION;''], report = [],
                  processed_count = 0, inserted_count = 0, skipped_count = 0,
                  not_found_count = 0\<rparr> df
      in (str_join newline (sql_statements st @ [''COMMIT;'']), report st @ [summary_item st]))"

section \<open>Notions used to state the claims\<close>

text \<open>
  The report item one pass of the loop of \<open>generate_sql\<close> appends for a row; it does not
  depend on the state the pass starts from.
\<close>

definition row_report_item ::
  "(string \<rightharpoonup> program_info) \<Rightarrow> (int \<times> string \<rightharpoonup> int) \<Rightarrow> (int \<times> string) set \<Rightarrow>
   participant_row \<Rightarrow> ParticipantReportItem" where
  "row_report_item programs_map schedules_map existing_participants row =
     last (report (generate_sql_step programs_map schedules_map existing_participants
       \<lparr>sql_statements = [], report = [], processed_count = 0, inserted_count = 0,
        skipped_count = 0, not_found_count = 0\<rparr> row))"

text \<open>
  The key (schedule id, lower-cased participant name) a row resolves to, when its start
  date parses, its program is in the program snapshot and the schedule snapshot has a
  schedule id other than 0 for the program and the date.
\<close>

definition participant_key ::
  "(string \<rightharpoonup> program_info) \<Rightarrow> (int \<times> string \<rightharpoonup> int) \<Rightarrow> participant_row \<Rightarrow>
   (int \<times> string) option" where
  "participant_key programs_map schedules_map row =
     (case participants_parse_indonesian_date (Tanggal_Mulai row) of
        None \<Rightarrow> None
      | Some start \<Rightarrow>
          (if start = [] then None
           else
             (case programs_map (str_lower (str_strip (str_of_cell (Program row)))) of
                None \<Rightarrow> None
              | Some program_data \<Rightarrow>
                  (case schedules_map (prog_id program_data, start) of
                     None \<Rightarrow> None
                   | Some sid \<Rightarrow>
                       if sid = 0 then None
                       else Some (sid, str_lower (str_strip (str_of_cell (Nama row))))))))"

text \<open>
  The certificate reference as claim C6 words it: both texts when both are non-empty,
  else whichever is non-empty, else empty.
\<close>

definition claimed_certificate_ref :: "string \<Rightarrow> string \<Rightarrow> string" where
  "claimed_certificate_ref no_value ket_value =
     (if no_value \<noteq> [] \<and> ket_value \<noteq> [] then no_value @ ket_value
      else if no_value \<noteq> [] then no_value
      else ket_value)"

text \<open>
  A keyword match as claim C8 words it: whole-word and case-insensitive, that is, the
  match of the lower-cased keyword in the lower-cased name.
\<close>

definition claimed_keyword_match :: "string \<Rightarrow> string \<Rightarrow> bool" where
  "claimed_keyword_match keyword name = re_search_word (str_lower keyword) (str_lower name)"

text \<open>
  For a row of the CSV reader: the three columns \<open>process_csv_data\<close> reads hold a text
  (the line is not shorter than the header); the trimmed text of a column; the row has a
  non-empty text in each of the three; and the item the row is stored as.
\<close>

definition csv_present :: "csv_row \<Rightarrow> bool" where
  "csv_present row =
     (row ''Program'' \<noteq> Some None \<and> row ''Tanggal Mulai'' \<noteq> Some None
      \<and> row ''Tanggal Sertifikat'' \<noteq> Some None)"

definition csv_field :: "csv_row \<Rightarrow> string \<Rightarrow> string" where
  "csv_field row key = (case row key of Some (Some v) \<Rightarrow> str_strip v | _ \<Rightarrow> [])"

definition csv_complete :: "csv_row \<Rightarrow> bool" where
  "csv_complete row =
     (csv_field row ''Program'' \<noteq> [] \<and> csv_field row ''Tanggal Mulai'' \<noteq> []
      \<and> csv_field row ''Tanggal Sertifikat'' \<noteq> [])"

definition csv_item :: "csv_row \<Rightarrow> schedule_row" where
  "csv_item row =
     \<lparr>program = csv_field row ''Program'', start_date = csv_field row ''Tanggal Mulai'',
      end_date = csv_field row ''Tanggal Sertifikat''\<rparr>"

text \<open>
  The date normalizer as the specification words it. The text is trimmed and lower-cased
  and has to consist of three whitespace-separated tokens: a day of one or two digits, a
  month name of the Indonesian table or else of the English one, and a year of four
  digits, which together are a date of the calendar. The result is the date as
  \<open>YYYY-MM-DD\<close>; in every other case there is none.
\<close>

definition day_of_token :: "string \<Rightarrow> nat option" where
  "day_of_token t =
     (case t of
        [a] \<Rightarrow> if isdigit a then Some (digit_val a) else None
      | [a, b] \<Rightarrow> if isdigit a \<and> isdigit b then Some (10 * digit_val a + digit_val b) else None
      | _ \<Rightarrow> None)"

definition year_of_token :: "string \<Rightarrow> nat option" where
  "year_of_token t =
     (case t of
        [a, b, c, d] \<Rightarrow>
          if isdigit a \<and> isdigit b \<and> isdigit c \<and> isdigit d
          then Some (1000 * digit_val a + 100 * digit_val b + 10 * digit_val c + digit_val d)
          else None
      | _ \<Rightarrow> None)"

definition english_month :: "string \<Rightarrow> nat option" where
  "english_month t =
     (if t \<in> set month_names then Some (Suc (index_of t month_names)) else None)"

definition month_of_token :: "string \<Rightarrow> nat option" where
  "month_of_token t =
     (case map_of INDONESIAN_MONTHS t of
        Some eng \<Rightarrow> english_month (str_lower eng)
      | None \<Rightarrow> english_month t)"

definition date_of_tokens :: "(string \<Rightarrow> nat option) \<Rightarrow> string list \<Rightarrow> (nat \<times> nat \<times> nat) option" where
  "date_of_tokens month tokens =
     (case tokens of
        [day, month_name, year] \<Rightarrow>
          (case day_of_token day of None \<Rightarrow> None | Some d \<Rightarrow>
          (case month month_name of None \<Rightarrow> None | Some m \<Rightarrow>
          (case year_of_token year of None \<Rightarrow> None | Some y \<Rightarrow>
             if valid_date y m d then Some (y, m, d) else None)))
      | _ \<Rightarrow> None)"

definition spec_normalize :: "string \<Rightarrow> string option" where
  "spec_normalize text =
     (case date_of_tokens month_of_token (str_split (str_lower (str_strip text))) of
        None \<Rightarrow> None
      | Some (y, m, d) \<Rightarrow> Some (pad4 y @ ''-'' @ pad2 m @ ''-'' @ pad2 d))"

text \<open>
  Three shapes of text: a token (non-empty, without whitespace), a blank (non-empty, only
  whitespace), and a text that neither starts nor ends with whitespace.
\<close>

definition is_token :: "string \<Rightarrow> bool" where
  "is_token a = (a \<noteq> [] \<and> (\<forall>c\<in>set a. \<not> isspace c))"

definition is_blank :: "string \<Rightarrow> bool" where
  "is_blank w = (w \<noteq> [] \<and> (\<forall>c\<in>set w. isspace c))"

definition is_stripped :: "string \<Rightarrow> bool" where
  "is_stripped t = (t = [] \<or> (\<not> isspace (hd t) \<and> \<not> isspace (last t)))"

section \<open>Facts about the string functions\<close>

lemma str_split_Nil: "str_split [] = []"
  by (simp add: str_split.simps)

lemma str_join_suffix: "xs \<noteq> [] \<Longrightarrow> suffix (last xs) (str_join sep xs)"
  by (induction sep xs rule: str_join.induct) (auto simp: suffix_append)

lemma str_join_prefix: "xs \<noteq> [] \<Longrightarrow> prefix (hd xs) (str_join sep xs)"
  by (induction sep xs rule: str_join.induct) auto

lemma programs_sql_loop_append:
  "programs_sql_loop acc ps =
     acc @ concat (map (\<lambda>p. if ProgramReportItem.action p \<noteq> ''Insert'' \<or> predicted_category_id p = None
                             then [] else program_sql_unit p) ps)"
  by (induction ps arbitrary: acc) auto

lemma schedules_sql_loop_append:
  "schedules_sql_loop acc ss =
     acc @ concat (map (\<lambda>s. if ScheduleReportItem.action s \<noteq> ''Insert''
                             then [] else schedule_sql_unit s) ss)"
  by (induction ss arbitrary: acc) auto

lemma generate_sql_step_statements:
  "\<exists>more. sql_statements (generate_sql_step pm sm ex st row) = sql_statements st @ more"
  by (simp add: generate_sql_step_def Let_def split: option.splits)

lemma generate_sql_loop_statements:
  "\<exists>more. sql_statements (generate_sql_loop pm sm ex st df) = sql_statements st @ more"
proof (induction df arbitrary: st)
  case Nil
  then show ?case by simp
next
  case (Cons row df)
  obtain m1 where m1: "sql_statements (generate_sql_step pm sm ex st row) = sql_statements st @ m1"
    using generate_sql_step_statements by blast
  obtain m2 where "sql_statements (generate_sql_loop pm sm ex (generate_sql_step pm sm ex st row) df)
      = sql_statements (generate_sql_step pm sm ex st row) @ m2"
    using Cons.IH by blast
  then show ?case using m1 by simp
qed

section \<open>The claims\<close>

text \<open>
  C7. Each of the three script builders emits a list of lines joined by newlines. In the
  builders of programs and schedules the list starts with three comment lines and
  \<open>START TRANSACTION;\<close> is the fourth line, the first one that is not a comment; in the
  builder of participants it is the first line and the script starts with it. The last
  line of every script is \<open>COMMIT;\<close>, and the script ends with it. For an empty
  decision list no line is an \<open>INSERT\<close> statement.
\<close>

theorem script_transaction_markers:
  "take 4 (programs_sql_lines ps hint now) =
     [''-- Generated by certificates-data-entry-tools'', ''-- Date: '' @ now,
      ''-- Output target: '' @ hint, ''START TRANSACTION;'']
   \<and> find (\<lambda>l. \<not> prefix ''--'' l) (programs_sql_lines ps hint now) = Some ''START TRANSACTION;''
   \<and> last (programs_sql_lines ps hint now) = ''COMMIT;''
   \<and> suffix ''COMMIT;'' (programs_generate_sql_script ps hint now)
   \<and> filter (prefix ''INSERT'') (programs_sql_lines [] hint now) = []
   \<and> take 4 (schedules_sql_lines ss hint now) =
     [''-- Generated by certificates-data-entry-tools'', ''-- Date: '' @ now,
      ''-- Output target: '' @ hint, ''START TRANSACTION;'']
   \<and> find (\<lambda>l. \<not> prefix ''--'' l) (schedules_sql_lines ss hint now) = Some ''START TRANSACTION;''
   \<and> last (schedules_sql_lines ss hint now) = ''COMMIT;''
   \<and> suffix ''COMMIT;'' (schedules_generate_sql_script ss hint now)
   \<and> filter (prefix ''INSERT'') (schedules_sql_lines [] hint now) = []
   \<and> prefix ''START TRANSACTION;'' (fst (generate_sql df pm sm ex))
   \<and> suffix ''COMMIT;'' (fst (generate_sql df pm sm ex))
   \<and> fst (generate_sql [] pm sm ex) = ''START TRANSACTION;'' @ newline @ ''COMMIT;''"
proof -
  have p1: "take 4 (programs_sql_lines ps hint now) =
     [''-- Generated by certificates-data-entry-tools'', ''-- Date: '' @ now,
      ''-- Output target: '' @ hint, ''START TRANSACTION;'']"
    by (simp add: programs_sql_lines_def programs_sql_loop_append script_header_def)
  have p2: "find (\<lambda>l. \<not> prefix ''--'' l) (programs_sql_lines ps hint now) = Some ''START TRANSACTION;''"
    by (simp add: programs_sql_lines_def programs_sql_loop_append script_header_def)
  have p3: "last (programs_sql_lines ps hint now) = ''COMMIT;''"
    by (simp add: programs_sql_lines_def)
  have p4: "suffix ''COMMIT;'' (programs_generate_sql_script ps hint now)"
    using str_join_suffix [of "programs_sql_lines ps hint now" newline] p3
    by (simp add: programs_generate_sql_script_def programs_sql_lines_def)
  have p5: "filter (prefix ''INSERT'') (programs_sql_lines [] hint now) = []"
    by (simp add: programs_sql_lines_def script_header_def)
  have s1: "take 4 (schedules_sql_lines ss hint now) =
     [''-- Generated by certificates-data-entry-tools'', ''-- Date: '' @ now,
      ''-- Output target: '' @ hint, ''START TRANSACTION;'']"
    by (simp add: schedules_sql_lines_def schedules_sql_loop_append script_header_def)
  have s2: "find (\<lambda>l. \<not> prefix ''--'' l) (schedules_sql_lines ss hint now) = Some ''START TRANSACTION;''"
    by (simp add: schedules_sql_lines_def schedules_sql_loop_append script_header_def)
  have s3: "last (schedules_sql_lines ss hint now) = ''COMMIT;''"
    by (simp add: schedules_sql_lines_def)
  have s4: "suffix ''COMMIT;'' (schedules_generate_sql_script ss hint now)"
    using str_join_suffix [of "schedules_sql_lines ss hint now" newline] s3
    by (simp add: schedules_generate_sql_script_def schedules_sql_lines_def)
  have s5: "filter (prefix ''INSERT'') (schedules_sql_lines [] hint now) = []"
    by (simp add: schedules_sql_lines_def script_header_def)
  define st where "st = generate_sql_loop pm sm ex
      \<lparr>sql_statements = [''START TRANSACTION;''], report = [], processed_count = 0,
       inserted_count = 0, skipped_count = 0, not_found_count = 0\<rparr> df"
  have "\<exists>more. sql_statements st =
      sql_statements \<lparr>sql_statements = [''START TRANSACTION;''], report = [], processed_count = 0,
       inserted_count = 0, skipped_count = 0, not_found_count = 0\<rparr> @ more"
    unfolding st_def by (rule generate_sql_loop_statements)
  then obtain more where more: "sql_statements st = ''START TRANSACTION;'' # more"
    by auto
  have g: "fst (generate_sql df pm sm ex) = str_join newline (sql_statements st @ [''COMMIT;''])"
    by (simp add: generate_sql_def st_def Let_def)
  have g1: "prefix ''START TRANSACTION;'' (fst (generate_sql df pm sm ex))"
    using str_join_prefix [of "sql_statements st @ [''COMMIT;'']" newline] more g by simp
  have g2: "suffix ''COMMIT;'' (fst (generate_sql df pm sm ex))"
    using str_join_suffix [of "sql_statements st @ [''COMMIT;'']" newline] g by simp
  have g3: "fst (generate_sql [] pm sm ex) = ''START TRANSACTION;'' @ newline @ ''COMMIT;''"
    by (simp add: generate_sql_def)
  show ?thesis using p1 p2 p3 p4 p5 s1 s2 s3 s4 s5 g1 g2 g3 by blast
qed

theorem script_transaction_markers_witness:
  "take 4 (programs_sql_lines [] ''out/insert_programs.sql'' ''2025-01-18 10:00:00'') =
     [''-- Generated by certificates-data-entry-tools'', ''-- Date: '' @ ''2025-01-18 10:00:00'',
      ''-- Output target: '' @ ''out/insert_programs.sql'', ''START TRANSACTION;'']
   \<and> find (\<lambda>l. \<not> prefix ''--'' l)
        (programs_sql_lines [] ''out/insert_programs.sql'' ''2025-01-18 10:00:00'') =
       Some ''START TRANSACTION;''
   \<and> last (programs_sql_lines [] ''out/insert_programs.sql'' ''2025-01-18 10:00:00'') = ''COMMIT;''
   \<and> suffix ''COMMIT;''
        (programs_generate_sql_script [] ''out/insert_programs.sql'' ''2025-01-18 10:00:00'')
   \<and> filter (prefix ''INSERT'')
        (programs_sql_lines [] ''out/insert_programs.sql'' ''2025-01-18 10:00:00'') = []
   \<and> take 4 (schedules_sql_lines [] ''out/insert_programs.sql'' ''2025-01-18 10:00:00'') =
     [''-- Generated by certificates-data-entry-tools'', ''-- Date: '' @ ''2025-01-18 10:00:00'',
      ''-- Output target: '' @ ''out/insert_programs.sql'', ''START TRANSACTION;'']
   \<and> find (\<lambda>l. \<not> prefix ''--'' l)
        (schedules_sql_lines [] ''out/insert_programs.sql'' ''2025-01-18 10:00:00'') =
       Some ''START TRANSACTION;''
   \<and> last (schedules_sql_lines [] ''out/insert_programs.sql'' ''2025-01-18 10:00:00'') = ''COMMIT;''
   \<and> suffix ''COMMIT;''
        (schedules_generate_sql_script [] ''out/insert_programs.sql'' ''2025-01-18 10:00:00'')
   \<and> filter (prefix ''INSERT'')
        (schedules_sql_lines [] ''out/insert_programs.sql'' ''2025-01-18 10:00:00'') = []
   \<and> prefix ''START TRANSACTION;'' (fst (generate_sql [] Map.empty Map.empty {}))
   \<and> suffix ''COMMIT;'' (fst (generate_sql [] Map.empty Map.empty {}))
   \<and> fst (generate_sql [] Map.empty Map.empty {}) = ''START TRANSACTION;'' @ newline @ ''COMMIT;''"
  by (rule script_transaction_markers)

lemma process_programs_loop_map:
  "process_programs_loop f ex rules acc ps = acc @ map (process_program f ex rules) ps"
  by (induction ps arbitrary: acc) auto

lemma process_program_fields:
  "ProgramReportItem.program_name (process_program f ex rules name) = name"
  "str_lower (str_strip name) \<in> ex \<Longrightarrow>
     ProgramReportItem.status (process_program f ex rules name) = ''Exists'' \<and>
     ProgramReportItem.action (process_program f ex rules name) = ''Skip''"
  "str_lower (str_strip name) \<notin> ex \<Longrightarrow>
     ProgramReportItem.status (process_program f ex rules name) = ''New'' \<and>
     ProgramReportItem.action (process_program f ex rules name) = ''Insert'' \<and>
     predicted_category (process_program f ex rules name) =
       fst (predict_category (str_lower (str_strip name)) rules)"
  by (simp_all add: process_program_def Let_def split: prod.splits)

text \<open>
  C3. \<open>process_programs\<close> gives one decision per candidate name, in the order of the
  candidates. The decision of a candidate whose trimmed, lower-cased name is in the
  snapshot is \<open>Exists\<close> with action \<open>Skip\<close>; otherwise it is \<open>New\<close> with action
  \<open>Insert\<close> and the category that \<open>predict_category\<close> gives for the normalized name.
  The decision list is a function of the candidates, the snapshot and the rules alone
  (the table of category ids passed to the function is not read), so a second run on
  the same candidates and snapshot gives the same list.
\<close>

theorem process_programs_decisions:
  "length (process_programs slugify new_programs existing rules category_ids) = length new_programs
   \<and> (\<forall>i < length new_programs.
        ProgramReportItem.program_name
          (process_programs slugify new_programs existing rules category_ids ! i) = new_programs ! i
        \<and> (str_lower (str_strip (new_programs ! i)) \<in> existing \<longrightarrow>
             ProgramReportItem.status
               (process_programs slugify new_programs existing rules category_ids ! i) = ''Exists''
             \<and> ProgramReportItem.action
               (process_programs slugify new_programs existing rules category_ids ! i) = ''Skip'')
        \<and> (str_lower (str_strip (new_programs ! i)) \<notin> existing \<longrightarrow>
             ProgramReportItem.status
               (process_programs slugify new_programs existing rules category_ids ! i) = ''New''
             \<and> ProgramReportItem.action
               (process_programs slugify new_programs existing rules category_ids ! i) = ''Insert''
             \<and> predicted_category
               (process_programs slugify new_programs existing rules category_ids ! i) =
               fst (predict_category (str_lower (str_strip (new_programs ! i))) rules)))
   \<and> process_programs slugify new_programs existing rules category_ids =
       process_programs slugify new_programs existing rules other_category_ids"
proof -
  have m: "\<And>c. process_programs slugify new_programs existing rules c =
      map (process_program slugify existing rules) new_programs"
    by (simp add: process_programs_def process_programs_loop_map)
  show ?thesis
    unfolding m using process_program_fields by simp
qed

lemma training_cma_lower: "str_lower (str_strip ''Training CMA'') = ''training cma''"
  by code_simp

lemma new_course_lower: "str_lower (str_strip ''New Course X'') = ''new course x''"
  by code_simp

theorem process_programs_decisions_witness:
  "length (process_programs (\<lambda>s. s) [''Training CMA'', ''New Course X''] {''training cma''}
      [(''IT'', [''excel''])] CATEGORY_IDS) = 2
   \<and> ProgramReportItem.status (process_programs (\<lambda>s. s) [''Training CMA'', ''New Course X'']
        {''training cma''} [(''IT'', [''excel''])] CATEGORY_IDS ! 0) = ''Exists''
   \<and> ProgramReportItem.action (process_programs (\<lambda>s. s) [''Training CMA'', ''New Course X'']
        {''training cma''} [(''IT'', [''excel''])] CATEGORY_IDS ! 0) = ''Skip''
   \<and> ProgramReportItem.status (process_programs (\<lambda>s. s) [''Training CMA'', ''New Course X'']
        {''training cma''} [(''IT'', [''excel''])] CATEGORY_IDS ! 1) = ''New''
   \<and> ProgramReportItem.action (process_programs (\<lambda>s. s) [''Training CMA'', ''New Course X'']
        {''training cma''} [(''IT'', [''excel''])] CATEGORY_IDS ! 1) = ''Insert''"
proof -
  let ?ps = "[''Training CMA'', ''New Course X'']"
  note t = process_programs_decisions [of "\<lambda>s. s" ?ps "{''training cma''}"
      "[(''IT'', [''excel''])]" CATEGORY_IDS CATEGORY_IDS]
  have a: "str_lower (str_strip (?ps ! 0)) \<in> {''training cma''}"
    using training_cma_lower by simp
  have b: "str_lower (str_strip (?ps ! 1)) \<notin> {''training cma''}"
    using new_course_lower by simp
  from t have len: "length (process_programs (\<lambda>s. s) ?ps {''training cma''}
      [(''IT'', [''excel''])] CATEGORY_IDS) = 2" by simp
  from t have all: "\<forall>i<length ?ps.
        (str_lower (str_strip (?ps ! i)) \<in> {''training cma''} \<longrightarrow>
             ProgramReportItem.status
               (process_programs (\<lambda>s. s) ?ps {''training cma''} [(''IT'', [''excel''])] CATEGORY_IDS ! i) = ''Exists''
             \<and> ProgramReportItem.action
               (process_programs (\<lambda>s. s) ?ps {''training cma''} [(''IT'', [''excel''])] CATEGORY_IDS ! i) = ''Skip'')
        \<and> (str_lower (str_strip (?ps ! i)) \<notin> {''training cma''} \<longrightarrow>
             ProgramReportItem.status
               (process_programs (\<lambda>s. s) ?ps {''training cma''} [(''IT'', [''excel''])] CATEGORY_IDS ! i) = ''New''
             \<and> ProgramReportItem.action
               (process_programs (\<lambda>s. s) ?ps {''training cma''} [(''IT'', [''excel''])] CATEGORY_IDS ! i) = ''Insert'')"
    by blast
  have i0: "0 < length ?ps" and i1: "1 < length ?ps" by simp_all
  from all i0 a have r0: "ProgramReportItem.status
               (process_programs (\<lambda>s. s) ?ps {''training cma''} [(''IT'', [''excel''])] CATEGORY_IDS ! 0) = ''Exists''
             \<and> ProgramReportItem.action
               (process_programs (\<lambda>s. s) ?ps {''training cma''} [(''IT'', [''excel''])] CATEGORY_IDS ! 0) = ''Skip''"
    by blast
  from all i1 b have r1: "ProgramReportItem.status
               (process_programs (\<lambda>s. s) ?ps {''training cma''} [(''IT'', [''excel''])] CATEGORY_IDS ! 1) = ''New''
             \<and> ProgramReportItem.action
               (process_programs (\<lambda>s. s) ?ps {''training cma''} [(''IT'', [''excel''])] CATEGORY_IDS ! 1) = ''Insert''"
    by blast
  show ?thesis using len r0 r1 by blast
qed

lemma group_loop_keys:
  "set (map fst (group_loop acc data)) =
     set (map fst acc) \<union> (\<lambda>r. (program r, schedule_row.start_date r)) ` set data"
proof (induction data arbitrary: acc)
  case Nil
  then show ?case by simp
next
  case (Cons item data)
  show ?case
  proof (cases "map_of acc (program item, schedule_row.start_date item) = None")
    case True
    then show ?thesis using Cons.IH [of "acc @ [((program item, schedule_row.start_date item), item)]"]
      by (simp add: Let_def)
  next
    case False
    then have "(program item, schedule_row.start_date item) \<in> set (map fst acc)"
      by (metis map_of_eq_None_iff set_map)
    then show ?thesis using False Cons.IH [of acc] by (auto simp: Let_def)
  qed
qed

lemma group_loop_distinct:
  "distinct (map fst acc) \<Longrightarrow> distinct (map fst (group_loop acc data))"
proof (induction data arbitrary: acc)
  case Nil
  then show ?case by simp
next
  case (Cons item data)
  show ?case
  proof (cases "map_of acc (program item, schedule_row.start_date item) = None")
    case True
    then have "(program item, schedule_row.start_date item) \<notin> set (map fst acc)"
      by (metis map_of_eq_None_iff set_map)
    then have "distinct (map fst (acc @ [((program item, schedule_row.start_date item), item)]))"
      using Cons.prems by simp
    then have "distinct (map fst
        (group_loop (acc @ [((program item, schedule_row.start_date item), item)]) data))"
      by (rule Cons.IH)
    then show ?thesis using True by (simp add: Let_def)
  next
    case False
    then have "group_loop acc (item # data) = group_loop acc data"
      by (simp only: group_loop.simps Let_def if_False)
    then show ?thesis using Cons by simp
  qed
qed

lemma group_loop_map_of:
  "map_of (group_loop acc data) k =
     (case map_of acc k of
        Some v \<Rightarrow> Some v
      | None \<Rightarrow> find (\<lambda>r. (program r, schedule_row.start_date r) = k) data)"
proof (induction data arbitrary: acc)
  case Nil
  then show ?case by (simp split: option.splits)
next
  case (Cons item data)
  show ?case
  proof (cases "map_of acc (program item, schedule_row.start_date item) = None")
    case True
    then show ?thesis
      using Cons.IH [of "acc @ [((program item, schedule_row.start_date item), item)]"]
      by (auto simp: Let_def map_add_def split: option.splits)
  next
    case False
    then show ?thesis using Cons.IH [of acc] by (auto simp: Let_def split: option.splits)
  qed
qed

lemma process_schedules_loop_map:
  "process_schedules_loop pd ex acc g = acc @ map (process_schedule pd ex) g"
  by (induction g arbitrary: acc) auto

text \<open>
  C4. \<open>group_csv_data\<close> keeps one group per raw pair (program name, start-date text):
  the keys of the groups are distinct and are exactly the pairs of the rows, and the
  group of a key is the first row with that pair, so that later rows with the same pair
  (and their end dates) leave no trace. \<open>process_schedules\<close> gives one decision per
  group, hence as many decisions as there are distinct raw pairs.
\<close>

theorem schedule_rows_collapse_per_key:
  "distinct (map fst (group_csv_data data))
   \<and> set (map fst (group_csv_data data)) =
       (\<lambda>r. (program r, schedule_row.start_date r)) ` set data
   \<and> (\<forall>k. map_of (group_csv_data data) k =
            find (\<lambda>r. (program r, schedule_row.start_date r) = k) data)
   \<and> process_schedules (group_csv_data data) programs_data existing_schedules =
       map (process_schedule programs_data existing_schedules) (group_csv_data data)
   \<and> length (process_schedules (group_csv_data data) programs_data existing_schedules) =
       card ((\<lambda>r. (program r, schedule_row.start_date r)) ` set data)"
proof -
  have d: "distinct (map fst (group_csv_data data))"
    unfolding group_csv_data_def by (rule group_loop_distinct) simp
  have k: "set (map fst (group_csv_data data)) =
       (\<lambda>r. (program r, schedule_row.start_date r)) ` set data"
    unfolding group_csv_data_def using group_loop_keys [of "[]" data] by simp
  have f: "\<forall>k. map_of (group_csv_data data) k =
            find (\<lambda>r. (program r, schedule_row.start_date r) = k) data"
    unfolding group_csv_data_def by (simp add: group_loop_map_of)
  have m: "process_schedules (group_csv_data data) programs_data existing_schedules =
       map (process_schedule programs_data existing_schedules) (group_csv_data data)"
    by (simp add: process_schedules_def process_schedules_loop_map)
  have "length (group_csv_data data) = length (map fst (group_csv_data data))" by simp
  also have "\<dots> = card (set (map fst (group_csv_data data)))"
    using d distinct_card by fastforce
  finally have l: "length (process_schedules (group_csv_data data) programs_data existing_schedules) =
       card ((\<lambda>r. (program r, schedule_row.start_date r)) ` set data)"
    using m k by simp
  show ?thesis using d k f m l by blast
qed

theorem schedule_rows_collapse_per_key_witness:
  "length (process_schedules
      (group_csv_data
         [\<lparr>program = ''Training CMA'', start_date = ''31 Desember 2024'', end_date = ''2 Januari 2025''\<rparr>,
          \<lparr>program = ''Training CMA'', start_date = ''31 Desember 2024'', end_date = ''9 Januari 2025''\<rparr>])
      Map.empty {}) = 1
   \<and> map_of (group_csv_data
         [\<lparr>program = ''Training CMA'', start_date = ''31 Desember 2024'', end_date = ''2 Januari 2025''\<rparr>,
          \<lparr>program = ''Training CMA'', start_date = ''31 Desember 2024'', end_date = ''9 Januari 2025''\<rparr>])
        (''Training CMA'', ''31 Desember 2024'') =
       Some \<lparr>program = ''Training CMA'', start_date = ''31 Desember 2024'', end_date = ''2 Januari 2025''\<rparr>"
proof -
  let ?d = "[\<lparr>program = ''Training CMA'', start_date = ''31 Desember 2024'', end_date = ''2 Januari 2025''\<rparr>,
          \<lparr>program = ''Training CMA'', start_date = ''31 Desember 2024'', end_date = ''9 Januari 2025''\<rparr>]"
  note t = schedule_rows_collapse_per_key [of ?d Map.empty "{}"]
  from t have l: "length (process_schedules (group_csv_data ?d) Map.empty {}) =
      card ((\<lambda>r. (program r, schedule_row.start_date r)) ` set ?d)"
    by blast
  have c: "card ((\<lambda>r. (program r, schedule_row.start_date r)) ` set ?d) = 1"
    by simp
  from t have f: "map_of (group_csv_data ?d) (''Training CMA'', ''31 Desember 2024'') =
      find (\<lambda>r. (program r, schedule_row.start_date r) = (''Training CMA'', ''31 Desember 2024'')) ?d"
    by blast
  show ?thesis using l c f by simp
qed

lemma generate_sql_step_report:
  "report (generate_sql_step pm sm ex st row) = report st @ [row_report_item pm sm ex row]"
  by (simp add: generate_sql_step_def row_report_item_def Let_def split: option.splits)

lemma generate_sql_loop_report:
  "report (generate_sql_loop pm sm ex st df) = report st @ map (row_report_item pm sm ex) df"
  by (induction df arbitrary: st) (simp_all add: generate_sql_step_report)

lemma generate_sql_report:
  "i < length df \<Longrightarrow> snd (generate_sql df pm sm ex) ! i = row_report_item pm sm ex (df ! i)"
  by (simp add: generate_sql_def Let_def generate_sql_loop_report nth_append)

lemma generate_sql_report_length:
  "length (snd (generate_sql df pm sm ex)) = length df + 1"
  by (simp add: generate_sql_def Let_def generate_sql_loop_report)

lemma row_report_item_certificate_ref:
  "certificate_ref (row_report_item pm sm ex row) =
     make_certificate_ref (str_strip (str_of_cell (No row))) (str_strip (str_of_cell (ket row)))"
  by (simp add: generate_sql_step_def row_report_item_def Let_def split: option.splits)

text \<open>
  C6, as amended. For a row whose \<open>No\<close> and \<open>ket\<close> cells hold text, the certificate
  reference of its report item is the trimmed \<open>No\<close> followed by the trimmed \<open>ket\<close>
  when both are non-empty, and the trimmed \<open>ket\<close> otherwise: it is empty whenever
  \<open>ket\<close> is, also when \<open>No\<close> is not.
\<close>

theorem certificate_ref_of_text_cells:
  "i < length df \<Longrightarrow> No (df ! i) = Str a \<Longrightarrow> ket (df ! i) = Str b \<Longrightarrow>
   certificate_ref (snd (generate_sql df pm sm ex) ! i) =
     (if str_strip a \<noteq> [] \<and> str_strip b \<noteq> [] then str_strip a @ str_strip b else str_strip b)"
  by (simp add: generate_sql_report row_report_item_certificate_ref make_certificate_ref_def)

lemma strip_123: "str_strip ''123'' = ''123''" by code_simp
lemma strip_blank: "str_strip '' '' = []" by code_simp
lemma strip_A: "str_strip ''/CMA/2025'' = ''/CMA/2025''" by code_simp

theorem certificate_ref_of_text_cells_witness:
  "(0::nat) < length [\<lparr>Nama = Str ''Budi'', Program = Str ''Training CMA'',
        Tanggal_Mulai = Str ''31 Desember 2024'', No = Str ''123'', ket = Str ''/CMA/2025'',
        Tanggal_Sertifikat = Str ''2 Januari 2025''\<rparr>]
   \<and> certificate_ref (snd (generate_sql [\<lparr>Nama = Str ''Budi'', Program = Str ''Training CMA'',
        Tanggal_Mulai = Str ''31 Desember 2024'', No = Str ''123'', ket = Str ''/CMA/2025'',
        Tanggal_Sertifikat = Str ''2 Januari 2025''\<rparr>] Map.empty Map.empty {}) ! 0) = ''123/CMA/2025''"
  using certificate_ref_of_text_cells [of 0 "[\<lparr>Nama = Str ''Budi'', Program = Str ''Training CMA'',
        Tanggal_Mulai = Str ''31 Desember 2024'', No = Str ''123'', ket = Str ''/CMA/2025'',
        Tanggal_Sertifikat = Str ''2 Januari 2025''\<rparr>]" "''123''" "''/CMA/2025''" Map.empty Map.empty "{}"]
  by (simp add: strip_123 strip_A)

text \<open>
  C6 as stated fails on a row with \<open>No = "123"\<close> and a blank \<open>ket\<close>: exactly one of the
  two is non-empty, and the reference is empty, not \<open>"123"\<close>.
\<close>

theorem certificate_ref_counterexample:
  "certificate_ref (snd (generate_sql [\<lparr>Nama = Str ''Budi'', Program = Str ''Training CMA'',
        Tanggal_Mulai = Str ''31 Desember 2024'', No = Str ''123'', ket = Str '' '',
        Tanggal_Sertifikat = Str ''2 Januari 2025''\<rparr>] Map.empty Map.empty {}) ! 0) = []
   \<and> claimed_certificate_ref (str_strip (str_of_cell (Str ''123'')))
        (str_strip (str_of_cell (Str '' ''))) = ''123''"
  by (simp add: generate_sql_report row_report_item_certificate_ref make_certificate_ref_def
      claimed_certificate_ref_def strip_123 strip_blank)

lemma row_report_item_status:
  "ParticipantReportItem.status (row_report_item pm sm ex row) =
     (case participant_key pm sm row of
        Some k \<Rightarrow> if k \<in> ex then ''Skipped'' else ''To Be Inserted''
      | None \<Rightarrow>
          if truthy (participants_parse_indonesian_date (Tanggal_Mulai row))
          then ''Not Found'' else ''Skipped'')"
proof (cases "participants_parse_indonesian_date (Tanggal_Mulai row)")
  case None
  then show ?thesis
    by (simp add: generate_sql_step_def row_report_item_def participant_key_def truthy_def Let_def)
next
  case (Some start)
  show ?thesis
  proof (cases "start = []")
    case True
    then show ?thesis using Some
      by (simp add: generate_sql_step_def row_report_item_def participant_key_def truthy_def Let_def)
  next
    case ne: False
    show ?thesis
    proof (cases "pm (str_lower (str_strip (str_of_cell (Program row))))")
      case None
      then show ?thesis using Some ne
        by (simp add: generate_sql_step_def row_report_item_def participant_key_def truthy_def Let_def)
    next
      case pd: (Some program_data)
      show ?thesis
      proof (cases "sm (prog_id program_data, start)")
        case None
        then show ?thesis using Some ne pd
          by (simp add: generate_sql_step_def row_report_item_def participant_key_def truthy_def Let_def)
      next
        case sid: (Some sid)
        then show ?thesis using Some ne pd
          by (simp add: generate_sql_step_def row_report_item_def participant_key_def truthy_def Let_def)
      qed
    qed
  qed
qed

lemma row_report_item_existing_action:
  "participant_key pm sm row = Some k \<Longrightarrow> k \<in> ex \<Longrightarrow>
     ParticipantReportItem.action (row_report_item pm sm ex row) =
       ''Participant already exists for this schedule''"
proof (cases "participants_parse_indonesian_date (Tanggal_Mulai row)")
  case None
  assume "participant_key pm sm row = Some k"
  then show ?thesis using None by (simp add: participant_key_def)
next
  case (Some start)
  assume k: "participant_key pm sm row = Some k" and kin: "k \<in> ex"
  from k Some have ne: "start \<noteq> []"
    by (auto simp: participant_key_def split: if_splits)
  from k Some ne obtain program_data
    where pd: "pm (str_lower (str_strip (str_of_cell (Program row)))) = Some program_data"
    by (auto simp: participant_key_def split: option.splits)
  from k Some ne pd obtain sid where sid: "sm (prog_id program_data, start) = Some sid"
    by (auto simp: participant_key_def split: option.splits)
  from k Some ne pd sid have z: "sid \<noteq> 0"
    and kk: "k = (sid, str_lower (str_strip (str_of_cell (Nama row))))"
    by (auto simp: participant_key_def split: if_splits)
  show ?thesis using Some ne pd sid z kk kin
    by (simp add: generate_sql_step_def row_report_item_def participant_key_def truthy_def Let_def)
qed

lemma row_report_item_other_key:
  "participant_key pm sm row \<noteq> Some k \<Longrightarrow>
     row_report_item pm sm (insert k ex) row = row_report_item pm sm ex row"
proof (cases "participants_parse_indonesian_date (Tanggal_Mulai row)")
  case None
  then show ?thesis
    by (simp add: generate_sql_step_def row_report_item_def participant_key_def truthy_def Let_def)
next
  case (Some start)
  assume nk: "participant_key pm sm row \<noteq> Some k"
  show ?thesis
  proof (cases "start = []")
    case True
    then show ?thesis using Some
      by (simp add: generate_sql_step_def row_report_item_def participant_key_def truthy_def Let_def)
  next
    case ne: False
    show ?thesis
    proof (cases "pm (str_lower (str_strip (str_of_cell (Program row))))")
      case None
      then show ?thesis using Some ne
        by (simp add: generate_sql_step_def row_report_item_def participant_key_def truthy_def Let_def)
    next
      case pd: (Some program_data)
      show ?thesis
      proof (cases "sm (prog_id program_data, start)")
        case None
        then show ?thesis using Some ne pd
          by (simp add: generate_sql_step_def row_report_item_def participant_key_def truthy_def Let_def)
      next
        case sid: (Some sid)
        show ?thesis
        proof (cases "sid = 0")
          case True
          then show ?thesis using Some ne pd sid
            by (simp add: generate_sql_step_def row_report_item_def participant_key_def truthy_def Let_def)
        next
          case False
          then have "k \<noteq> (sid, str_lower (str_strip (str_of_cell (Nama row))))"
            using nk Some ne pd sid by (auto simp: participant_key_def)
          then show ?thesis using Some ne pd sid False
            by (simp add: generate_sql_step_def row_report_item_def participant_key_def truthy_def Let_def)
        qed
      qed
    qed
  qed
qed

text \<open>
  C5, as amended. When the report of a run under the snapshot \<open>S\<close> marks row \<open>i\<close> as
  To Be Inserted, the row resolves to a key \<open>k\<close> (schedule id, lower-cased name) that
  is not in \<open>S\<close>; the run under \<open>S \<union> {k}\<close> marks the row as Skipped (participant
  already exists), and the report item of every row that does not resolve to the same key
  \<open>k\<close> is the same in both runs.
\<close>

theorem rerun_flips_inserted_row:
  "i < length df \<Longrightarrow>
   ParticipantReportItem.status (snd (generate_sql df pm sm S) ! i) = ''To Be Inserted'' \<Longrightarrow>
   (\<exists>k. participant_key pm sm (df ! i) = Some k \<and> k \<notin> S
      \<and> ParticipantReportItem.status (snd (generate_sql df pm sm (insert k S)) ! i) = ''Skipped''
      \<and> ParticipantReportItem.action (snd (generate_sql df pm sm (insert k S)) ! i) =
           ''Participant already exists for this schedule''
      \<and> (\<forall>j < length df. participant_key pm sm (df ! j) \<noteq> Some k \<longrightarrow>
            snd (generate_sql df pm sm (insert k S)) ! j = snd (generate_sql df pm sm S) ! j))"
proof -
  assume i: "i < length df"
    and st: "ParticipantReportItem.status (snd (generate_sql df pm sm S) ! i) = ''To Be Inserted''"
  from st i have s: "ParticipantReportItem.status (row_report_item pm sm S (df ! i)) = ''To Be Inserted''"
    by (simp add: generate_sql_report)
  then obtain k where k: "participant_key pm sm (df ! i) = Some k" "k \<notin> S"
    by (auto simp: row_report_item_status split: option.splits if_splits)
  have "ParticipantReportItem.status (row_report_item pm sm (insert k S) (df ! i)) = ''Skipped''"
    using k(1) by (simp add: row_report_item_status)
  moreover have "ParticipantReportItem.action (row_report_item pm sm (insert k S) (df ! i)) =
       ''Participant already exists for this schedule''"
    using row_report_item_existing_action [OF k(1), of "insert k S"] by simp
  ultimately have a: "ParticipantReportItem.status (snd (generate_sql df pm sm (insert k S)) ! i) = ''Skipped''
      \<and> ParticipantReportItem.action (snd (generate_sql df pm sm (insert k S)) ! i) =
           ''Participant already exists for this schedule''"
    using i by (simp add: generate_sql_report)
  have b: "\<forall>j < length df. participant_key pm sm (df ! j) \<noteq> Some k \<longrightarrow>
            snd (generate_sql df pm sm (insert k S)) ! j = snd (generate_sql df pm sm S) ! j"
    by (simp add: generate_sql_report row_report_item_other_key)
  show ?thesis using k a b by blast
qed

lemma parse_31_desember_2024:
  "participants_parse_indonesian_date (Str ''31 Desember 2024'') = Some ''2024-12-31''"
  by code_simp

lemma parse_31_desember_2024_lower:
  "participants_parse_indonesian_date (Str ''31 desember 2024'') = Some ''2024-12-31''"
  by code_simp

lemma sample_names:
  "str_lower (str_strip ''Budi'') = ''budi''"
  "str_lower (str_strip ''BUDI '') = ''budi''"
  "str_lower (str_strip ''Training CMA'') = ''training cma''"
  "str_lower (str_strip ''training cma'') = ''training cma''"
  by (simp_all add: str_lower_def str_strip_def isspace_def lower_char_def char_of_eq_iff)

lemma sample_key_1:
  "participant_key 
      [''training cma'' \<mapsto> \<lparr>prog_id = 5, cat_id = 2\<rparr>] [(5, ''2024-12-31'') \<mapsto> 7] 
      \<lparr>Nama = Str ''Budi'', Program = Str ''Training CMA'', Tanggal_Mulai = Str ''31 Desember 2024'', No = Str ''123'', ket = Str ''/CMA/2025'', Tanggal_Sertifikat = Str ''2 Januari 2025''\<rparr> = Some (7, ''budi'')"
  by (simp add: participant_key_def parse_31_desember_2024 sample_names)

lemma sample_key_2:
  "participant_key 
      [''training cma'' \<mapsto> \<lparr>prog_id = 5, cat_id = 2\<rparr>] [(5, ''2024-12-31'') \<mapsto> 7] 
      \<lparr>Nama = Str ''BUDI '', Program = Str ''training cma'', Tanggal_Mulai = Str ''31 desember 2024'', No = Str ''124'', ket = Str ''/CMA/2025'', Tanggal_Sertifikat = NaN\<rparr> = Some (7, ''budi'')"
  by (simp add: participant_key_def parse_31_desember_2024_lower sample_names)

theorem rerun_flips_inserted_row_witness:
  "(0::nat) < length [
      \<lparr>Nama = Str ''Budi'', Program = Str ''Training CMA'', Tanggal_Mulai = Str ''31 Desember 2024'', No = Str ''123'', ket = Str ''/CMA/2025'', Tanggal_Sertifikat = Str ''2 Januari 2025''\<rparr>]
   \<and> ParticipantReportItem.status (snd (generate_sql [
      \<lparr>Nama = Str ''Budi'', Program = Str ''Training CMA'', Tanggal_Mulai = Str ''31 Desember 2024'', No = Str ''123'', ket = Str ''/CMA/2025'', Tanggal_Sertifikat = Str ''2 Januari 2025''\<rparr>] 
      [''training cma'' \<mapsto> \<lparr>prog_id = 5, cat_id = 2\<rparr>] [(5, ''2024-12-31'') \<mapsto> 7] {}) ! 0) = ''To Be Inserted''
   \<and> ParticipantReportItem.status (snd (generate_sql [
      \<lparr>Nama = Str ''Budi'', Program = Str ''Training CMA'', Tanggal_Mulai = Str ''31 Desember 2024'', No = Str ''123'', ket = Str ''/CMA/2025'', Tanggal_Sertifikat = Str ''2 Januari 2025''\<rparr>] 
      [''training cma'' \<mapsto> \<lparr>prog_id = 5, cat_id = 2\<rparr>] [(5, ''2024-12-31'') \<mapsto> 7] (insert (7, ''budi'') {})) ! 0) = ''Skipped''"
proof -
  have i: "(0::nat) < length [
      \<lparr>Nama = Str ''Budi'', Program = Str ''Training CMA'', Tanggal_Mulai = Str ''31 Desember 2024'', No = Str ''123'', ket = Str ''/CMA/2025'', Tanggal_Sertifikat = Str ''2 Januari 2025''\<rparr>]" by simp
  have st: "ParticipantReportItem.status (snd (generate_sql [
      \<lparr>Nama = Str ''Budi'', Program = Str ''Training CMA'', Tanggal_Mulai = Str ''31 Desember 2024'', No = Str ''123'', ket = Str ''/CMA/2025'', Tanggal_Sertifikat = Str ''2 Januari 2025''\<rparr>] 
      [''training cma'' \<mapsto> \<lparr>prog_id = 5, cat_id = 2\<rparr>] [(5, ''2024-12-31'') \<mapsto> 7] {}) ! 0) = ''To Be Inserted''"
    by (simp add: generate_sql_report row_report_item_status sample_key_1)
  from rerun_flips_inserted_row [OF i st]
  obtain k where k: "participant_key 
      [''training cma'' \<mapsto> \<lparr>prog_id = 5, cat_id = 2\<rparr>] [(5, ''2024-12-31'') \<mapsto> 7] ([
      \<lparr>Nama = Str ''Budi'', Program = Str ''Training CMA'', Tanggal_Mulai = Str ''31 Desember 2024'', No = Str ''123'', ket = Str ''/CMA/2025'', Tanggal_Sertifikat = Str ''2 Januari 2025''\<rparr>] ! 0) = Some k"
    and sk: "ParticipantReportItem.status (snd (generate_sql [
      \<lparr>Nama = Str ''Budi'', Program = Str ''Training CMA'', Tanggal_Mulai = Str ''31 Desember 2024'', No = Str ''123'', ket = Str ''/CMA/2025'', Tanggal_Sertifikat = Str ''2 Januari 2025''\<rparr>] 
      [''training cma'' \<mapsto> \<lparr>prog_id = 5, cat_id = 2\<rparr>] [(5, ''2024-12-31'') \<mapsto> 7] (insert k {})) ! 0) = ''Skipped''"
    by blast
  from k have "k = (7, ''budi'')" using sample_key_1 by simp
  then show ?thesis using i st sk by simp
qed

text \<open>
  C5 as stated fails for a second row that resolves to the same key: rows are not
  deduplicated, both rows are To Be Inserted under the empty snapshot, and once the key
  of the first row is in the snapshot the second row is Skipped as well.
\<close>

theorem rerun_other_row_counterexample:
  "participant_key 
      [''training cma'' \<mapsto> \<lparr>prog_id = 5, cat_id = 2\<rparr>] [(5, ''2024-12-31'') \<mapsto> 7] 
      \<lparr>Nama = Str ''Budi'', Program = Str ''Training CMA'', Tanggal_Mulai = Str ''31 Desember 2024'', No = Str ''123'', ket = Str ''/CMA/2025'', Tanggal_Sertifikat = Str ''2 Januari 2025''\<rparr> = Some (7, ''budi'')
   \<and> ParticipantReportItem.status (snd (generate_sql [
      \<lparr>Nama = Str ''Budi'', Program = Str ''Training CMA'', Tanggal_Mulai = Str ''31 Desember 2024'', No = Str ''123'', ket = Str ''/CMA/2025'', Tanggal_Sertifikat = Str ''2 Januari 2025''\<rparr>, 
      \<lparr>Nama = Str ''BUDI '', Program = Str ''training cma'', Tanggal_Mulai = Str ''31 desember 2024'', No = Str ''124'', ket = Str ''/CMA/2025'', Tanggal_Sertifikat = NaN\<rparr>] 
      [''training cma'' \<mapsto> \<lparr>prog_id = 5, cat_id = 2\<rparr>] [(5, ''2024-12-31'') \<mapsto> 7] {}) ! 0) = ''To Be Inserted''
   \<and> ParticipantReportItem.status (snd (generate_sql [
      \<lparr>Nama = Str ''Budi'', Program = Str ''Training CMA'', Tanggal_Mulai = Str ''31 Desember 2024'', No = Str ''123'', ket = Str ''/CMA/2025'', Tanggal_Sertifikat = Str ''2 Januari 2025''\<rparr>, 
      \<lparr>Nama = Str ''BUDI '', Program = Str ''training cma'', Tanggal_Mulai = Str ''31 desember 2024'', No = Str ''124'', ket = Str ''/CMA/2025'', Tanggal_Sertifikat = NaN\<rparr>] 
      [''training cma'' \<mapsto> \<lparr>prog_id = 5, cat_id = 2\<rparr>] [(5, ''2024-12-31'') \<mapsto> 7] {}) ! 1) = ''To Be Inserted''
   \<and> ParticipantReportItem.status (snd (generate_sql [
      \<lparr>Nama = Str ''Budi'', Program = Str ''Training CMA'', Tanggal_Mulai = Str ''31 Desember 2024'', No = Str ''123'', ket = Str ''/CMA/2025'', Tanggal_Sertifikat = Str ''2 Januari 2025''\<rparr>, 
      \<lparr>Nama = Str ''BUDI '', Program = Str ''training cma'', Tanggal_Mulai = Str ''31 desember 2024'', No = Str ''124'', ket = Str ''/CMA/2025'', Tanggal_Sertifikat = NaN\<rparr>] 
      [''training cma'' \<mapsto> \<lparr>prog_id = 5, cat_id = 2\<rparr>] [(5, ''2024-12-31'') \<mapsto> 7] ({} \<union> {(7, ''budi'')})) ! 1) = ''Skipped''"
  by (simp add: generate_sql_report row_report_item_status sample_key_1 sample_key_2)

lemma search_from_iff:
  "search_from k b s \<longleftrightarrow>
     (\<exists>pre post. s = pre @ k @ post
        \<and> word_boundary (if pre = [] then b else last_char pre) (first_char (k @ post))
        \<and> word_boundary (if pre @ k = [] then b else last_char (pre @ k)) (first_char post))"
proof (induction s arbitrary: b)
  case Nil
  show ?case by (auto simp: match_at_def first_char_def)
next
  case (Cons c cs)
  have here: "match_at k b (c # cs) \<longleftrightarrow>
     (\<exists>post. c # cs = k @ post \<and> word_boundary b (first_char (k @ post))
        \<and> word_boundary (if k = [] then b else last_char k) (first_char post))"
    by (auto simp: match_at_def prefix_def)
  have later: "search_from k (Some c) cs \<longleftrightarrow>
     (\<exists>pre post. c # cs = (c # pre) @ k @ post
        \<and> word_boundary (last_char (c # pre)) (first_char (k @ post))
        \<and> word_boundary (last_char ((c # pre) @ k)) (first_char post))"
    unfolding Cons.IH [of "Some c"]
    by (simp add: last_char_def) 
  show ?case
  proof
    assume "search_from k b (c # cs)"
    then consider "match_at k b (c # cs)" | "search_from k (Some c) cs" by auto
    then show "\<exists>pre post. c # cs = pre @ k @ post
        \<and> word_boundary (if pre = [] then b else last_char pre) (first_char (k @ post))
        \<and> word_boundary (if pre @ k = [] then b else last_char (pre @ k)) (first_char post)"
    proof cases
      case 1
      then obtain post where "c # cs = k @ post" "word_boundary b (first_char (k @ post))"
        "word_boundary (if k = [] then b else last_char k) (first_char post)"
        using here by blast
      then show ?thesis
        by (intro exI [of _ "[]"] exI [of _ post]) (simp only: append_Nil simp_thms if_True)
    next
      case 2
      then obtain pre post where "c # cs = (c # pre) @ k @ post"
        "word_boundary (last_char (c # pre)) (first_char (k @ post))"
        "word_boundary (last_char ((c # pre) @ k)) (first_char post)"
        using later by blast
      then show ?thesis
        by (intro exI [of _ "c # pre"] exI [of _ post])
          (simp only: list.simps append_Cons append_is_Nil_conv simp_thms if_False)
    qed
  next
    assume "\<exists>pre post. c # cs = pre @ k @ post
        \<and> word_boundary (if pre = [] then b else last_char pre) (first_char (k @ post))
        \<and> word_boundary (if pre @ k = [] then b else last_char (pre @ k)) (first_char post)"
    then obtain pre post where p: "c # cs = pre @ k @ post"
        "word_boundary (if pre = [] then b else last_char pre) (first_char (k @ post))"
        "word_boundary (if pre @ k = [] then b else last_char (pre @ k)) (first_char post)"
      by blast
    show "search_from k b (c # cs)"
    proof (cases pre)
      case Nil
      then have "match_at k b (c # cs)" using p here by auto
      then show ?thesis by simp
    next
      case (Cons a pre')
      then have "a = c" using p(1) by simp
      then have "search_from k (Some c) cs" using p Cons later by auto
      then show ?thesis by simp
    qed
  qed
qed

lemma predict_category_first:
  "i < length rules \<Longrightarrow>
   list_ex (\<lambda>k. re_search_word k name) (snd (rules ! i)) \<Longrightarrow>
   (\<forall>j < i. \<not> list_ex (\<lambda>k. re_search_word k name) (snd (rules ! j))) \<Longrightarrow>
   predict_category name rules = (fst (rules ! i), map_of CATEGORY_IDS (fst (rules ! i)))"
proof (induction rules arbitrary: i)
  case Nil
  then show ?case by simp
next
  case (Cons r rules)
  obtain category kws where r: "r = (category, kws)" by (cases r)
  show ?case
  proof (cases i)
    case 0
    then show ?thesis using Cons.prems r by simp
  next
    case (Suc i')
    have "\<not> list_ex (\<lambda>k. re_search_word k name) kws"
      using Cons.prems(3) Suc r by fastforce
    moreover have "predict_category name rules =
        (fst (rules ! i'), map_of CATEGORY_IDS (fst (rules ! i')))"
    proof (rule Cons.IH)
      show "i' < length rules" using Cons.prems(1) Suc by simp
      show "list_ex (\<lambda>k. re_search_word k name) (snd (rules ! i'))"
        using Cons.prems(2) Suc by simp
      show "\<forall>j<i'. \<not> list_ex (\<lambda>k. re_search_word k name) (snd (rules ! j))"
        using Cons.prems(3) Suc by fastforce
    qed
    ultimately show ?thesis using r Suc by simp
  qed
qed

lemma predict_category_none:
  "(\<forall>i < length rules. \<not> list_ex (\<lambda>k. re_search_word k name) (snd (rules ! i))) \<Longrightarrow>
   predict_category name rules = (''Uncategorized'', None)"
proof (induction rules)
  case Nil
  then show ?case by simp
next
  case (Cons r rules)
  obtain category kws where r: "r = (category, kws)" by (cases r)
  have "\<not> list_ex (\<lambda>k. re_search_word k name) kws"
    using Cons.prems r by fastforce
  moreover have "predict_category name rules = (''Uncategorized'', None)"
    using Cons.prems by (intro Cons.IH) fastforce
  ultimately show ?case using r by simp
qed

text \<open>
  C8, as amended. A keyword is found in a name exactly when the name is
  \<open>pre @ keyword @ post\<close> with a word boundary before and after the keyword: the
  characters are compared as they are, so the match is case-sensitive. The classifier
  returns the first category, in the order of the rules, one of whose keywords is found,
  with the id the table \<open>CATEGORY_IDS\<close> has for it; when no keyword of any rule is found
  it returns \<open>Uncategorized\<close> with no id. The result is a function of the name and the
  rules.
\<close>

theorem predict_category_first_match:
  "(re_search_word keyword name \<longleftrightarrow>
      (\<exists>pre post. name = pre @ keyword @ post
         \<and> word_boundary (last_char pre) (first_char (keyword @ post))
         \<and> word_boundary (last_char (pre @ keyword)) (first_char post)))
   \<and> (\<forall>i < length rules.
        list_ex (\<lambda>k. re_search_word k name) (snd (rules ! i)) \<longrightarrow>
        (\<forall>j < i. \<not> list_ex (\<lambda>k. re_search_word k name) (snd (rules ! j))) \<longrightarrow>
        predict_category name rules = (fst (rules ! i), map_of CATEGORY_IDS (fst (rules ! i))))
   \<and> ((\<forall>i < length rules. \<not> list_ex (\<lambda>k. re_search_word k name) (snd (rules ! i))) \<longrightarrow>
        predict_category name rules = (''Uncategorized'', None))"
proof -
  have a: "re_search_word keyword name \<longleftrightarrow>
      (\<exists>pre post. name = pre @ keyword @ post
         \<and> word_boundary (last_char pre) (first_char (keyword @ post))
         \<and> word_boundary (last_char (pre @ keyword)) (first_char post))"
    unfolding re_search_word_def search_from_iff by (simp add: last_char_def)
  show ?thesis using a predict_category_first predict_category_none by blast
qed

lemma excel_found: "re_search_word ''excel'' ''training microsoft excel level basic''"
  by (simp add: re_search_word_def match_at_def word_boundary_def is_w_def first_char_def
      last_char_def isword_def)

theorem predict_category_first_match_witness:
  "(0::nat) < length [(''IT'', [''excel''])]
   \<and> list_ex (\<lambda>k. re_search_word k ''training microsoft excel level basic'')
        (snd ([(''IT'', [''excel''])] ! 0))
   \<and> predict_category ''training microsoft excel level basic'' [(''IT'', [''excel''])] = (''IT'', Some 5)"
proof -
  have i: "(0::nat) < length [(''IT'', [''excel''])]" by simp
  have m: "list_ex (\<lambda>k. re_search_word k ''training microsoft excel level basic'')
        (snd ([(''IT'', [''excel''])] ! 0))"
    using excel_found by simp
  have "predict_category ''training microsoft excel level basic'' [(''IT'', [''excel''])] =
      (fst ([(''IT'', [''excel''])] ! 0), map_of CATEGORY_IDS (fst ([(''IT'', [''excel''])] ! 0)))"
    using predict_category_first_match [of "''excel''" "''training microsoft excel level basic''"
        "[(''IT'', [''excel''])]"] i m
    by blast
  then show ?thesis using i m by (simp add: CATEGORY_IDS_def)
qed

text \<open>
  C8 as stated fails for a keyword with an upper-case letter: \<open>Excel\<close> matches the
  name \<open>excel\<close> ignoring case, and the classifier returns \<open>Uncategorized\<close>.
\<close>

theorem predict_category_case_counterexample:
  "claimed_keyword_match ''Excel'' ''excel''
   \<and> predict_category ''excel'' [(''IT'', [''Excel''])] = (''Uncategorized'', None)"
  by (simp add: claimed_keyword_match_def str_lower_def lower_char_def char_of_eq_iff
      re_search_word_def match_at_def word_boundary_def is_w_def first_char_def
      last_char_def isword_def)

lemma row_report_item_invalid_start:
  "participants_parse_indonesian_date (Tanggal_Mulai row) = None \<Longrightarrow>
     ParticipantReportItem.status (row_report_item pm sm ex row) = ''Skipped'' \<and>
     ParticipantReportItem.action (row_report_item pm sm ex row) = ''Invalid schedule start date''"
  by (simp add: generate_sql_step_def row_report_item_def truthy_def Let_def)

lemma get_strip_present:
  "row key \<noteq> Some None \<Longrightarrow> get_strip row key = Inr (csv_field row key)"
  by (auto simp: get_strip_def row_get_def csv_field_def str_strip_def split: option.splits)

lemma process_csv_loop_present:
  "\<forall>row\<in>set rows. csv_present row \<Longrightarrow>
   process_csv_loop data rows = Inr (data @ map csv_item (filter csv_complete rows))"
proof (induction rows arbitrary: data)
  case Nil
  then show ?case by simp
next
  case (Cons row rows)
  have p: "row ''Program'' \<noteq> Some None" "row ''Tanggal Mulai'' \<noteq> Some None"
    "row ''Tanggal Sertifikat'' \<noteq> Some None"
    using Cons.prems by (simp_all add: csv_present_def)
  have rest: "\<forall>row\<in>set rows. csv_present row" using Cons.prems by simp
  show ?case
    using p by (simp add: get_strip_present Cons.IH [OF rest] csv_complete_def csv_item_def)
qed

lemma process_schedule_invalid_date:
  "schedules_parse_indonesian_date (snd (fst entry)) = None
     \<or> schedules_parse_indonesian_date (schedule_row.end_date (snd entry)) = None \<Longrightarrow>
   ScheduleReportItem.status (process_schedule pd es entry) = ''Invalid Date'' \<and>
   ScheduleReportItem.action (process_schedule pd es entry) = ''Skip''"
  by (auto simp: process_schedule_def truthy_def Let_def split: prod.splits)

text \<open>
  C9, as amended. Participants: the report has one item per row of the frame (and the
  summary), and a row whose start date is empty or does not parse is marked Skipped with
  the action \<open>Invalid schedule start date\<close>. Schedules: when every line of the file has
  its three fields, \<open>process_csv_data\<close> returns, keeping the rows whose program, start
  date and end date are all non-empty after trimming and dropping the others, which
  therefore get no decision; \<open>process_schedules\<close> gives one decision per group, and a
  group whose start date or end date does not parse is marked \<open>Invalid Date\<close> with the
  action \<open>Skip\<close>. Every function is total on these inputs, so the rows after a
  malformed one are processed as well.
\<close>

theorem malformed_rows_reported_or_dropped:
  "length (snd (generate_sql df pm sm ex)) = length df + 1
   \<and> (\<forall>i < length df.
         participants_parse_indonesian_date (Tanggal_Mulai (df ! i)) = None \<longrightarrow>
         ParticipantReportItem.status (snd (generate_sql df pm sm ex) ! i) = ''Skipped''
         \<and> ParticipantReportItem.action (snd (generate_sql df pm sm ex) ! i) =
             ''Invalid schedule start date'')
   \<and> ((\<forall>row\<in>set rows. csv_present row) \<longrightarrow>
         process_csv_data rows = Inr (map csv_item (filter csv_complete rows)))
   \<and> length (process_schedules grouped pd es) = length grouped
   \<and> (\<forall>i < length grouped.
         schedules_parse_indonesian_date (snd (fst (grouped ! i))) = None
           \<or> schedules_parse_indonesian_date (schedule_row.end_date (snd (grouped ! i))) = None \<longrightarrow>
         ScheduleReportItem.status (process_schedules grouped pd es ! i) = ''Invalid Date''
         \<and> ScheduleReportItem.action (process_schedules grouped pd es ! i) = ''Skip'')"
proof -
  have a: "length (snd (generate_sql df pm sm ex)) = length df + 1"
    by (rule generate_sql_report_length)
  have b: "\<forall>i < length df.
         participants_parse_indonesian_date (Tanggal_Mulai (df ! i)) = None \<longrightarrow>
         ParticipantReportItem.status (snd (generate_sql df pm sm ex) ! i) = ''Skipped''
         \<and> ParticipantReportItem.action (snd (generate_sql df pm sm ex) ! i) =
             ''Invalid schedule start date''"
    by (simp add: generate_sql_report row_report_item_invalid_start)
  have c: "(\<forall>row\<in>set rows. csv_present row) \<longrightarrow>
         process_csv_data rows = Inr (map csv_item (filter csv_complete rows))"
    by (simp add: process_csv_data_def process_csv_loop_present)
  have m: "process_schedules grouped pd es = map (process_schedule pd es) grouped"
    by (simp add: process_schedules_def process_schedules_loop_map)
  have d: "length (process_schedules grouped pd es) = length grouped"
    by (simp add: m)
  have e: "\<forall>i < length grouped.
         schedules_parse_indonesian_date (snd (fst (grouped ! i))) = None
           \<or> schedules_parse_indonesian_date (schedule_row.end_date (snd (grouped ! i))) = None \<longrightarrow>
         ScheduleReportItem.status (process_schedules grouped pd es ! i) = ''Invalid Date''
         \<and> ScheduleReportItem.action (process_schedules grouped pd es ! i) = ''Skip''"
    by (simp add: m process_schedule_invalid_date)
  show ?thesis using a b c d e by blast
qed

text \<open>
  C9 as stated fails in the schedules pipeline: a row with an empty start date is left out
  by \<open>process_csv_data\<close>, and the decision list has no entry for it.
\<close>

theorem dropped_schedule_row_counterexample:
  "process_csv_data
     [[''Program'' \<mapsto> Some ''Training CMA'', ''Tanggal Mulai'' \<mapsto> Some [],
       ''Tanggal Sertifikat'' \<mapsto> Some ''2 Januari 2025'']] = Inr []
   \<and> process_schedules (group_csv_data []) Map.empty {} = []"
  by (simp add: process_csv_data_def get_strip_def row_get_def str_strip_def isspace_def
      process_schedules_def group_csv_data_def)

lemma schedules_parse_TBA: "schedules_parse_indonesian_date ''TBA'' = None"
  by code_simp

lemma csv_sample_fields:
  "csv_field 
      [''Program'' \<mapsto> Some ''Training CMA'', ''Tanggal Mulai'' \<mapsto> Some ''TBA'', ''Tanggal Sertifikat'' \<mapsto> Some ''2 Januari 2025''] ''Program'' = ''Training CMA''"
  "csv_field 
      [''Program'' \<mapsto> Some ''Training CMA'', ''Tanggal Mulai'' \<mapsto> Some ''TBA'', ''Tanggal Sertifikat'' \<mapsto> Some ''2 Januari 2025''] ''Tanggal Mulai'' = ''TBA''"
  "csv_field 
      [''Program'' \<mapsto> Some ''Training CMA'', ''Tanggal Mulai'' \<mapsto> Some ''TBA'', ''Tanggal Sertifikat'' \<mapsto> Some ''2 Januari 2025''] ''Tanggal Sertifikat'' = ''2 Januari 2025''"
  by (simp_all add: csv_field_def str_strip_def isspace_def)

theorem malformed_rows_reported_or_dropped_witness:
  "(0::nat) < length [
      \<lparr>Nama = Str ''Budi'', Program = Str ''Training CMA'', Tanggal_Mulai = NaN, No = Str ''123'', ket = Str ''/CMA/2025'', Tanggal_Sertifikat = Str ''2 Januari 2025''\<rparr>]
   \<and> participants_parse_indonesian_date (Tanggal_Mulai ([
      \<lparr>Nama = Str ''Budi'', Program = Str ''Training CMA'', Tanggal_Mulai = NaN, No = Str ''123'', ket = Str ''/CMA/2025'', Tanggal_Sertifikat = Str ''2 Januari 2025''\<rparr>] ! 0)) = None
   \<and> ParticipantReportItem.status (snd (generate_sql [
      \<lparr>Nama = Str ''Budi'', Program = Str ''Training CMA'', Tanggal_Mulai = NaN, No = Str ''123'', ket = Str ''/CMA/2025'', Tanggal_Sertifikat = Str ''2 Januari 2025''\<rparr>] Map.empty Map.empty {}) ! 0) = ''Skipped''
   \<and> ParticipantReportItem.action (snd (generate_sql [
      \<lparr>Nama = Str ''Budi'', Program = Str ''Training CMA'', Tanggal_Mulai = NaN, No = Str ''123'', ket = Str ''/CMA/2025'', Tanggal_Sertifikat = Str ''2 Januari 2025''\<rparr>] Map.empty Map.empty {}) ! 0) =
       ''Invalid schedule start date''
   \<and> csv_present 
      [''Program'' \<mapsto> Some ''Training CMA'', ''Tanggal Mulai'' \<mapsto> Some ''TBA'', ''Tanggal Sertifikat'' \<mapsto> Some ''2 Januari 2025'']
   \<and> process_csv_data [
      [''Program'' \<mapsto> Some ''Training CMA'', ''Tanggal Mulai'' \<mapsto> Some ''TBA'', ''Tanggal Sertifikat'' \<mapsto> Some ''2 Januari 2025'']] =
       Inr [\<lparr>program = ''Training CMA'', start_date = ''TBA'', end_date = ''2 Januari 2025''\<rparr>]
   \<and> schedules_parse_indonesian_date (snd (fst ([
      ((''Training CMA'', ''TBA''), \<lparr>program = ''Training CMA'', start_date = ''TBA'', end_date = ''2 Januari 2025''\<rparr>)] ! 0))) = None
   \<and> ScheduleReportItem.status (process_schedules [
      ((''Training CMA'', ''TBA''), \<lparr>program = ''Training CMA'', start_date = ''TBA'', end_date = ''2 Januari 2025''\<rparr>)] Map.empty {} ! 0) = ''Invalid Date''
   \<and> ScheduleReportItem.action (process_schedules [
      ((''Training CMA'', ''TBA''), \<lparr>program = ''Training CMA'', start_date = ''TBA'', end_date = ''2 Januari 2025''\<rparr>)] Map.empty {} ! 0) = ''Skip''"
proof -
  note t = malformed_rows_reported_or_dropped [of "[
      \<lparr>Nama = Str ''Budi'', Program = Str ''Training CMA'', Tanggal_Mulai = NaN, No = Str ''123'', ket = Str ''/CMA/2025'', Tanggal_Sertifikat = Str ''2 Januari 2025''\<rparr>]" Map.empty Map.empty "{}" "[
      [''Program'' \<mapsto> Some ''Training CMA'', ''Tanggal Mulai'' \<mapsto> Some ''TBA'', ''Tanggal Sertifikat'' \<mapsto> Some ''2 Januari 2025'']]" "[
      ((''Training CMA'', ''TBA''), \<lparr>program = ''Training CMA'', start_date = ''TBA'', end_date = ''2 Januari 2025''\<rparr>)]" Map.empty "{}"]
  have i: "(0::nat) < length [
      \<lparr>Nama = Str ''Budi'', Program = Str ''Training CMA'', Tanggal_Mulai = NaN, No = Str ''123'', ket = Str ''/CMA/2025'', Tanggal_Sertifikat = Str ''2 Januari 2025''\<rparr>]" by simp
  have n: "participants_parse_indonesian_date (Tanggal_Mulai ([
      \<lparr>Nama = Str ''Budi'', Program = Str ''Training CMA'', Tanggal_Mulai = NaN, No = Str ''123'', ket = Str ''/CMA/2025'', Tanggal_Sertifikat = Str ''2 Januari 2025''\<rparr>] ! 0)) = None"
    by (simp add: participants_parse_indonesian_date.simps)
  from t i n have a: "ParticipantReportItem.status (snd (generate_sql [
      \<lparr>Nama = Str ''Budi'', Program = Str ''Training CMA'', Tanggal_Mulai = NaN, No = Str ''123'', ket = Str ''/CMA/2025'', Tanggal_Sertifikat = Str ''2 Januari 2025''\<rparr>] Map.empty Map.empty {}) ! 0) = ''Skipped''
   \<and> ParticipantReportItem.action (snd (generate_sql [
      \<lparr>Nama = Str ''Budi'', Program = Str ''Training CMA'', Tanggal_Mulai = NaN, No = Str ''123'', ket = Str ''/CMA/2025'', Tanggal_Sertifikat = Str ''2 Januari 2025''\<rparr>] Map.empty Map.empty {}) ! 0) =
       ''Invalid schedule start date''"
    by blast
  have p: "csv_present 
      [''Program'' \<mapsto> Some ''Training CMA'', ''Tanggal Mulai'' \<mapsto> Some ''TBA'', ''Tanggal Sertifikat'' \<mapsto> Some ''2 Januari 2025'']"
    by (simp add: csv_present_def)
  then have "\<forall>row\<in>set [
      [''Program'' \<mapsto> Some ''Training CMA'', ''Tanggal Mulai'' \<mapsto> Some ''TBA'', ''Tanggal Sertifikat'' \<mapsto> Some ''2 Januari 2025'']]. csv_present row" by simp
  with t have "process_csv_data [
      [''Program'' \<mapsto> Some ''Training CMA'', ''Tanggal Mulai'' \<mapsto> Some ''TBA'', ''Tanggal Sertifikat'' \<mapsto> Some ''2 Januari 2025'']] = Inr (map csv_item (filter csv_complete [
      [''Program'' \<mapsto> Some ''Training CMA'', ''Tanggal Mulai'' \<mapsto> Some ''TBA'', ''Tanggal Sertifikat'' \<mapsto> Some ''2 Januari 2025'']]))"
    by blast
  then have c: "process_csv_data [
      [''Program'' \<mapsto> Some ''Training CMA'', ''Tanggal Mulai'' \<mapsto> Some ''TBA'', ''Tanggal Sertifikat'' \<mapsto> Some ''2 Januari 2025'']] =
       Inr [\<lparr>program = ''Training CMA'', start_date = ''TBA'', end_date = ''2 Januari 2025''\<rparr>]"
    by (simp add: csv_complete_def csv_item_def csv_sample_fields)
  have j: "(0::nat) < length [
      ((''Training CMA'', ''TBA''), \<lparr>program = ''Training CMA'', start_date = ''TBA'', end_date = ''2 Januari 2025''\<rparr>)]" by simp
  have g: "schedules_parse_indonesian_date (snd (fst ([
      ((''Training CMA'', ''TBA''), \<lparr>program = ''Training CMA'', start_date = ''TBA'', end_date = ''2 Januari 2025''\<rparr>)] ! 0))) = None"
    by (simp add: schedules_parse_TBA)
  from t j g have d: "ScheduleReportItem.status (process_schedules [
      ((''Training CMA'', ''TBA''), \<lparr>program = ''Training CMA'', start_date = ''TBA'', end_date = ''2 Januari 2025''\<rparr>)] Map.empty {} ! 0) = ''Invalid Date''
   \<and> ScheduleReportItem.action (process_schedules [
      ((''Training CMA'', ''TBA''), \<lparr>program = ''Training CMA'', start_date = ''TBA'', end_date = ''2 Januari 2025''\<rparr>)] Map.empty {} ! 0) = ''Skip''"
    by blast
  show ?thesis using i n a p c g d by blast
qed

end
